theory Spec2Isabelle
  imports Main
begin

text \<open>
  A shallow embedding of three parts of gru held in \<open>src/gructl/command/classifier.go\<close>: the
  \<open>classifier\<close> command of \<open>gructl\<close>, the systemd service resource (package
  \<open>resource\<close>), and the etcd minion client (package \<open>client\<close>). The libraries they call
  (D-Bus binding, etcd client, HCL, mergo, JSON, UUID, path handling, logging) are parameters
  of the embedding; the properties hold for every behaviour of these libraries, and are
  evaluated at the end on concrete instances.
\<close>

section \<open>Errors and outcomes of a call\<close>

text \<open>
  A Go \<open>error\<close> value is either an \<open>etcdclient.Error\<close> (with its numeric code and its
  message) or any other error, kept by its text. A function of the repository that returns
  \<open>(T, error)\<close> is modelled as a pair of the value and \<open>error option\<close>, \<open>None\<close> being
  \<open>nil\<close>: the source returns a value next to a non-nil error in several places.
\<close>

datatype error = EtcdError nat string | Failure string

definition ErrorCodeKeyNotFound :: nat where
  "ErrorCodeKeyNotFound = 100"

text \<open>
  A call either returns or panics (a failed type assertion). \<open>Create\<close> and \<open>Delete\<close>
  receive from a channel; they either return or stay blocked there.
\<close>

datatype 'a exec = Return 'a | Panic

datatype 'a await = Returns 'a | Blocked

section \<open>The service resource\<close>

subsection \<open>Data\<close>

text \<open>
  Modelled from the spec: the state constants are declared outside the source file; the spec
  says that \<open>Current\<close> and \<open>Want\<close> are drawn from a small closed enum (\<open>Unknown\<close>,
  \<open>Running\<close>, \<open>Stopped\<close>, ...). \<open>StateOther\<close> stands for any other declared state.
\<close>

datatype state = StateUnknown | StateRunning | StateStopped | StateOther string

text \<open>
  Modelled from the spec: \<open>BaseResource\<close> is declared outside the source file; the fields
  are the ones the source reads and writes (name, resource-type tag, desired state).
\<close>

record BaseResource =
  Name :: string
  ResourceType :: string
  State :: state

record ServiceResource = BaseResource +
  Enable :: bool
  UnitName :: string

text \<open>
  Modelled from the spec: the \<open>State\<close> triple \<open>{Current, Want, Update}\<close> is declared
  outside the source file.
\<close>

record State =
  Current :: state
  Want :: state
  Update :: bool

definition serviceResourceType :: string where
  "serviceResourceType = ''service''"

subsection \<open>The capability layer\<close>

text \<open>
  The value of a D-Bus property is a variant; the source asserts that it is a string.
\<close>

datatype variant = VString string | VOther

record Property =
  prop_Name :: string
  prop_Value :: variant

record UnitFileChange =
  change_Type :: string
  change_Filename :: string
  change_Destination :: string

datatype arg = S string | D int

text \<open>
  Everything outside the source file is a parameter: the D-Bus binding, the logger, the HCL
  decoder, the merge of the defaults and the resource's \<open>ID()\<close>. The host is a state \<open>'w\<close>
  that every call of the binding may change; each call may fail on its own. \<open>StartUnit\<close> and
  \<open>StopUnit\<close> return the job id and what the result channel delivers (\<open>None\<close>: nothing, ever).
\<close>

record ('w, 'obj) host_api =
  res_ID :: "ServiceResource \<Rightarrow> string"
  hcl_DecodeObject :: "'obj \<Rightarrow> ServiceResource \<times> error option"
  mergo_Merge :: "ServiceResource \<Rightarrow> ServiceResource \<Rightarrow> ServiceResource \<times> error option"
  log_Printf :: "string \<Rightarrow> arg list \<Rightarrow> 'w \<Rightarrow> 'w"
  dbus_New :: "'w \<Rightarrow> error option \<times> 'w"
  conn_Close :: "'w \<Rightarrow> 'w"
  conn_GetUnitProperty :: "string \<Rightarrow> string \<Rightarrow> 'w \<Rightarrow> (error + Property) \<times> 'w"
  conn_EnableUnitFiles ::
    "string list \<Rightarrow> bool \<Rightarrow> bool \<Rightarrow> 'w \<Rightarrow> (error + bool \<times> UnitFileChange list) \<times> 'w"
  conn_DisableUnitFiles :: "string list \<Rightarrow> bool \<Rightarrow> 'w \<Rightarrow> (error + UnitFileChange list) \<times> 'w"
  conn_Reload :: "'w \<Rightarrow> error option \<times> 'w"
  conn_StartUnit :: "string \<Rightarrow> string \<Rightarrow> 'w \<Rightarrow> (error + int \<times> string option) \<times> 'w"
  conn_StopUnit :: "string \<Rightarrow> string \<Rightarrow> 'w \<Rightarrow> (error + int \<times> string option) \<times> 'w"

subsection \<open>Construction\<close>

text \<open>
  \<open>NewServiceResource\<close>: the zero value of \<open>s\<close> is decoded into; the error of the merge is
  assigned to \<open>err\<close> and not read again. \<open>defaults\<close> is the function's local record of
  defaults.
\<close>

definition defaults :: ServiceResource where
  "defaults = \<lparr>Name = [], ResourceType = serviceResourceType, State = StateRunning,
               Enable = False, UnitName = []\<rparr>"

definition NewServiceResource ::
    "('w, 'obj) host_api \<Rightarrow> 'obj \<Rightarrow> ServiceResource option \<times> error option" where
  "NewServiceResource api obj =
     (case hcl_DecodeObject api obj of
        (s, Some err) \<Rightarrow> (None, Some err)
      | (s, None) \<Rightarrow>
          (case mergo_Merge api s defaults of
             (s, err) \<Rightarrow> (Some (s\<lparr>UnitName := Name s @ ''.service''\<rparr>), None)))"

subsection \<open>Reading the unit\<close>

definition unitProperty ::
    "('w, 'obj) host_api \<Rightarrow> ServiceResource \<Rightarrow> string \<Rightarrow> 'w \<Rightarrow> (error + Property) \<times> 'w" where
  "unitProperty api s propertyName w =
     (case dbus_New api w of
        (Some err, w1) \<Rightarrow> (Inl err, w1)
      | (None, w1) \<Rightarrow>
          (case conn_GetUnitProperty api (UnitName s) propertyName w1 of
             (property, w2) \<Rightarrow> (property, conn_Close api w2)))"

definition unitIsEnabled ::
    "('w, 'obj) host_api \<Rightarrow> ServiceResource \<Rightarrow> 'w \<Rightarrow> (bool \<times> error option) exec \<times> 'w" where
  "unitIsEnabled api s w =
     (case unitProperty api s ''UnitFileState'' w of
        (Inl err, w1) \<Rightarrow> (Return (False, Some err), w1)
      | (Inr unitState, w1) \<Rightarrow>
          (case prop_Value unitState of
             VOther \<Rightarrow> (Panic, w1)
           | VString v \<Rightarrow>
               if v \<in> set [''enabled'', ''static'', ''enabled-runtime'', ''linked'',
                            ''linked-runtime'']
               then (Return (True, None), w1)
               else if v \<in> set [''disabled'', ''masked'', ''masked-runtime'']
               then (Return (False, None), w1)
               else (Return (False, Some (Failure ''Invalid unit state'')), w1)))"

subsection \<open>Changing the unit\<close>

fun log_changes ::
    "('w, 'obj) host_api \<Rightarrow> (UnitFileChange \<Rightarrow> string \<times> arg list) \<Rightarrow> UnitFileChange list \<Rightarrow>
     'w \<Rightarrow> 'w" where
  "log_changes api line [] w = w"
| "log_changes api line (c # cs) w =
     log_changes api line cs (log_Printf api (fst (line c)) (snd (line c)) w)"

definition enableUnit ::
    "('w, 'obj) host_api \<Rightarrow> ServiceResource \<Rightarrow> 'w \<Rightarrow> error option \<times> 'w" where
  "enableUnit api s w =
     (case dbus_New api w of
        (Some err, w1) \<Rightarrow> (Some err, w1)
      | (None, w1) \<Rightarrow>
          (let w2 = log_Printf api ''%s enabling service'' [S (res_ID api s)] w1
           in case conn_EnableUnitFiles api [UnitName s] False False w2 of
                (Inl err, w3) \<Rightarrow> (Some err, conn_Close api w3)
              | (Inr (_, changes), w3) \<Rightarrow>
                  (None, conn_Close api
                     (log_changes api
                        (\<lambda>c. (''%s %s %s -> %s'',
                              [S (res_ID api s), S (change_Type c), S (change_Filename c),
                               S (change_Destination c)]))
                        changes w3))))"

definition disableUnit ::
    "('w, 'obj) host_api \<Rightarrow> ServiceResource \<Rightarrow> 'w \<Rightarrow> error option \<times> 'w" where
  "disableUnit api s w =
     (case dbus_New api w of
        (Some err, w1) \<Rightarrow> (Some err, w1)
      | (None, w1) \<Rightarrow>
          (let w2 = log_Printf api ''%s disabling service'' [S (res_ID api s)] w1
           in case conn_DisableUnitFiles api [UnitName s] False w2 of
                (Inl err, w3) \<Rightarrow> (Some err, conn_Close api w3)
              | (Inr changes, w3) \<Rightarrow>
                  (None, conn_Close api
                     (log_changes api
                        (\<lambda>c. (''%s %s %s'',
                              [S (res_ID api s), S (change_Type c), S (change_Filename c)]))
                        changes w3))))"

definition daemonReload ::
    "('w, 'obj) host_api \<Rightarrow> ServiceResource \<Rightarrow> 'w \<Rightarrow> error option \<times> 'w" where
  "daemonReload api s w =
     (case dbus_New api w of
        (Some err, w1) \<Rightarrow> (Some err, w1)
      | (None, w1) \<Rightarrow>
          (case conn_Reload api w1 of (err, w2) \<Rightarrow> (err, conn_Close api w2)))"

subsection \<open>The reconciliation operations\<close>

definition Evaluate ::
    "('w, 'obj) host_api \<Rightarrow> ServiceResource \<Rightarrow> 'w \<Rightarrow> (State \<times> error option) exec \<times> 'w" where
  "Evaluate api s w =
     (let resourceState = \<lparr>Current = StateUnknown, Want = State s, Update = False\<rparr>
      in case unitProperty api s ''ActiveState'' w of
           (Inl err, w1) \<Rightarrow> (Return (resourceState, Some err), w1)
         | (Inr activeState, w1) \<Rightarrow>
             (case prop_Value activeState of
                VOther \<Rightarrow> (Panic, w1)
              | VString v \<Rightarrow>
                  (let resourceState =
                         (if v \<in> set [''active'', ''reloading'', ''activating'']
                          then resourceState\<lparr>Current := StateRunning\<rparr>
                          else if v \<in> set [''inactive'', ''failed'', ''deactivating'']
                          then resourceState\<lparr>Current := StateStopped\<rparr>
                          else resourceState)
                   in case unitIsEnabled api s w1 of
                        (Panic, w2) \<Rightarrow> (Panic, w2)
                      | (Return (enabled, Some err), w2) \<Rightarrow>
                          (Return (resourceState, Some err), w2)
                      | (Return (enabled, None), w2) \<Rightarrow>
                          (Return (if Enable s \<noteq> enabled
                                   then resourceState\<lparr>Update := True\<rparr>
                                   else resourceState, None), w2))))"

definition Create ::
    "('w, 'obj) host_api \<Rightarrow> ServiceResource \<Rightarrow> 'w \<Rightarrow> error option await \<times> 'w" where
  "Create api s w =
     (case dbus_New api w of
        (Some err, w1) \<Rightarrow> (Returns (Some err), w1)
      | (None, w1) \<Rightarrow>
          (let w2 = log_Printf api ''%s starting service'' [S (res_ID api s)] w1
           in case conn_StartUnit api (UnitName s) ''replace'' w2 of
                (Inl err, w3) \<Rightarrow> (Returns (Some err), conn_Close api w3)
              | (Inr (jobID, None), w3) \<Rightarrow> (Blocked, w3)
              | (Inr (jobID, Some result), w3) \<Rightarrow>
                  (Returns None,
                   conn_Close api
                     (log_Printf api ''%s systemd job id %d result: %s''
                        [S (res_ID api s), D jobID, S result] w3))))"

definition Delete ::
    "('w, 'obj) host_api \<Rightarrow> ServiceResource \<Rightarrow> 'w \<Rightarrow> error option await \<times> 'w" where
  "Delete api s w =
     (case dbus_New api w of
        (Some err, w1) \<Rightarrow> (Returns (Some err), w1)
      | (None, w1) \<Rightarrow>
          (let w2 = log_Printf api ''%s stopping service'' [S (res_ID api s)] w1
           in case conn_StopUnit api (UnitName s) ''replace'' w2 of
                (Inl err, w3) \<Rightarrow> (Returns (Some err), conn_Close api w3)
              | (Inr (jobID, None), w3) \<Rightarrow> (Blocked, w3)
              | (Inr (jobID, Some result), w3) \<Rightarrow>
                  (Returns None,
                   conn_Close api
                     (log_Printf api ''%s systemd job id %d result: %s''
                        [S (res_ID api s), D jobID, S result] w3))))"

text \<open>The method \<open>Update\<close>; the name \<open>Update\<close> is the field of \<open>State\<close>.\<close>

definition Update_res ::
    "('w, 'obj) host_api \<Rightarrow> ServiceResource \<Rightarrow> 'w \<Rightarrow> error option exec \<times> 'w" where
  "Update_res api s w =
     (case unitIsEnabled api s w of
        (Panic, w1) \<Rightarrow> (Panic, w1)
      | (Return (enabled, Some err), w1) \<Rightarrow> (Return (Some err), w1)
      | (Return (enabled, None), w1) \<Rightarrow>
          (let w2 = (if Enable s \<and> \<not> enabled
                     then snd (enableUnit api s w1)
                     else snd (disableUnit api s w1))
           in case daemonReload api s w2 of (err, w3) \<Rightarrow> (Return err, w3)))"

section \<open>The minion coordination client\<close>

subsection \<open>Data\<close>

text \<open>
  A \<open>uuid.UUID\<close> is sixteen bytes and \<open>String()\<close> renders them in the canonical textual
  form, which determines the bytes: a UUID is represented by that text.
\<close>

datatype UUID = UUID (uuid_String: string)

datatype Node = Node (node_Key: string) (node_Value: string) (node_Nodes: "Node list")

record GetOptions =
  Recursive :: bool

record SimpleClassifier =
  Key :: string
  Value :: string

text \<open>
  The store and the libraries are parameters. A read (\<open>Get\<close>) answers from the store \<open>'s\<close>
  and leaves it as it is; \<open>CreateInOrder\<close> is the ordered insert and returns the new store.
  \<open>json_Unmarshal\<close> returns what was decoded into the fresh \<open>SimpleClassifier\<close> and the
  error; \<open>'t\<close> is the type of tasks.
\<close>

record ('s, 't) etcd_api =
  EtcdMinionSpace :: string
  filepath_Join :: "string list \<Rightarrow> string"
  path_Base :: "string \<Rightarrow> string"
  uuid_Parse :: "string \<Rightarrow> UUID option"
  json_Unmarshal :: "string \<Rightarrow> SimpleClassifier \<times> error option"
  json_Marshal :: "'t \<Rightarrow> string \<times> error option"
  KAPI_Get :: "string \<Rightarrow> GetOptions option \<Rightarrow> 's \<Rightarrow> error + Node"
  KAPI_CreateInOrder :: "string \<Rightarrow> string \<Rightarrow> 's \<Rightarrow> (error + Node) \<times> 's"

definition maxGoroutines :: nat where
  "maxGoroutines = 4"

subsection \<open>Single reads\<close>

text \<open>
  \<open>GetClassifier\<close> has two returns: \<open>return nil, err\<close> is \<open>Inl err\<close>, and
  \<open>return klassifier, err\<close> is \<open>Inr (klassifier, err)\<close>, where \<open>err\<close> is the decoder's.
\<close>

definition GetClassifier ::
    "('s, 't) etcd_api \<Rightarrow> 's \<Rightarrow> UUID \<Rightarrow> string \<Rightarrow> error + SimpleClassifier \<times> error option" where
  "GetClassifier api st u key =
     (let classifierKey =
            filepath_Join api [EtcdMinionSpace api, uuid_String u, ''classifier'', key]
      in case KAPI_Get api classifierKey None st of
           Inl err \<Rightarrow> Inl err
         | Inr node \<Rightarrow> Inr (json_Unmarshal api (node_Value node)))"

fun decode_children ::
    "('s, 't) etcd_api \<Rightarrow> Node list \<Rightarrow> SimpleClassifier list \<Rightarrow>
     SimpleClassifier list \<times> error option" where
  "decode_children api [] classifiers = (classifiers, None)"
| "decode_children api (node # nodes) classifiers =
     (case json_Unmarshal api (node_Value node) of
        (klassifier, Some err) \<Rightarrow> (classifiers, Some err)
      | (klassifier, None) \<Rightarrow> decode_children api nodes (classifiers @ [klassifier]))"

definition GetAllClassifiers ::
    "('s, 't) etcd_api \<Rightarrow> 's \<Rightarrow> UUID \<Rightarrow> SimpleClassifier list \<times> error option" where
  "GetAllClassifiers api st u =
     (let classifiers = [];
          classifierDirKey = filepath_Join api [EtcdMinionSpace api, uuid_String u, ''classifier''];
          opts = Some \<lparr>Recursive = True\<rparr>
      in case KAPI_Get api classifierDirKey opts st of
           Inl err \<Rightarrow> (classifiers, Some err)
         | Inr node \<Rightarrow> decode_children api (node_Nodes node) classifiers)"

subsection \<open>Task submission\<close>

definition SubmitTask ::
    "('s, 't) etcd_api \<Rightarrow> 's \<Rightarrow> UUID \<Rightarrow> 't \<Rightarrow> error option \<times> 's" where
  "SubmitTask api st u t =
     (let minionRootDir = filepath_Join api [EtcdMinionSpace api, uuid_String u];
          queueDir = filepath_Join api [minionRootDir, ''queue'']
      in case KAPI_Get api minionRootDir None st of
           Inl err \<Rightarrow> (Some err, st)
         | Inr _ \<Rightarrow>
             (case json_Marshal api t of
                (data, Some err) \<Rightarrow> (Some err, st)
              | (data, None) \<Rightarrow>
                  (case KAPI_CreateInOrder api queueDir data st of
                     (Inl err, st') \<Rightarrow> (Some err, st')
                   | (Inr _, st') \<Rightarrow> (None, st'))))"

subsection \<open>The fleet-wide classifier query\<close>

text \<open>
  The producer walks the listed nodes in order, logs and skips a node whose key is not a
  UUID, and sends the others into the channel.
\<close>

fun producer ::
    "('s, 't) etcd_api \<Rightarrow> Node list \<Rightarrow> UUID list \<times> (string \<times> arg list) list" where
  "producer api [] = ([], [])"
| "producer api (node # nodes) =
     (let k = path_Base api (node_Key node)
      in case uuid_Parse api k of
           None \<Rightarrow>
             (case producer api nodes of
                (sent, lines) \<Rightarrow> (sent, (''Bad minion uuid found: %s'' @ [CHR 0x0A], [S k]) # lines))
         | Some u \<Rightarrow> (case producer api nodes of (sent, lines) \<Rightarrow> (u # sent, lines)))"

text \<open>The body of a worker's loop for one received UUID.\<close>

definition worker_item ::
    "('s, 't) etcd_api \<Rightarrow> 's \<Rightarrow> string \<Rightarrow> UUID \<Rightarrow> (string \<rightharpoonup> SimpleClassifier) \<Rightarrow>
     (string \<rightharpoonup> SimpleClassifier)" where
  "worker_item api st key minionUUID cm =
     (case GetClassifier api st minionUUID key of
        Inl err \<Rightarrow> cm
      | Inr (klassifier, Some err) \<Rightarrow> cm
      | Inr (klassifier, None) \<Rightarrow> cm(uuid_String minionUUID \<mapsto> klassifier))"

text \<open>One worker draining the whole channel: the schedule in which a single worker runs.\<close>

fun drain ::
    "('s, 't) etcd_api \<Rightarrow> 's \<Rightarrow> string \<Rightarrow> UUID list \<Rightarrow> (string \<rightharpoonup> SimpleClassifier) \<Rightarrow>
     (string \<rightharpoonup> SimpleClassifier)" where
  "drain api st key [] cm = cm"
| "drain api st key (minionUUID # rest) cm =
     drain api st key rest (worker_item api st key minionUUID cm)"

text \<open>
  \<open>GetClassifiedMinions\<close> returns the result map and the error, and the lines it logged.
  The aggregate is computed here by the schedule of \<open>drain\<close>; the pool below is the source's
  producer and \<open>maxGoroutines\<close> workers under every schedule.
\<close>

definition GetClassifiedMinions ::
    "('s, 't) etcd_api \<Rightarrow> 's \<Rightarrow> string \<Rightarrow>
     ((string \<rightharpoonup> SimpleClassifier) option \<times> error option) \<times> (string \<times> arg list) list" where
  "GetClassifiedMinions api st key =
     (case KAPI_Get api (EtcdMinionSpace api) None st of
        Inl err \<Rightarrow> ((None, Some err), [])
      | Inr node \<Rightarrow>
          (case producer api (node_Nodes node) of
             (sent, lines) \<Rightarrow> ((Some (drain api st key sent Map.empty), None), lines)))"

text \<open>
  The pool: the producer's remaining nodes, whether the channel is closed, the channel's
  buffer (capacity 1024), what each worker is doing, the concurrent map and the log. A step
  is one action of the producer or of one worker; \<open>cm.Set\<close> is atomic.
\<close>

datatype worker = Idle | Busy UUID | Exited

record pool =
  nodes_left :: "Node list"
  closed :: bool
  queue :: "UUID list"
  workers :: "worker list"
  cm :: "string \<rightharpoonup> SimpleClassifier"
  logged :: "(string \<times> arg list) list"

definition pool_start :: "Node list \<Rightarrow> pool" where
  "pool_start nodes =
     \<lparr>nodes_left = nodes, closed = False, queue = [], workers = replicate maxGoroutines Idle,
      cm = Map.empty, logged = []\<rparr>"

text \<open>\<open>wg.Wait()\<close> returns when every worker has left its loop.\<close>

definition pool_done :: "pool \<Rightarrow> bool" where
  "pool_done p = list_all (\<lambda>w. w = Exited) (workers p)"

inductive pool_step :: "('s, 't) etcd_api \<Rightarrow> 's \<Rightarrow> string \<Rightarrow> pool \<Rightarrow> pool \<Rightarrow> bool"
  for api :: "('s, 't) etcd_api" and st :: 's and key :: string where
  skip_bad:
    "nodes_left p = node # nodes \<Longrightarrow> uuid_Parse api (path_Base api (node_Key node)) = None \<Longrightarrow>
     pool_step api st key p
       (p\<lparr>nodes_left := nodes,
          logged := logged p @ [(''Bad minion uuid found: %s'' @ [CHR 0x0A],
                                 [S (path_Base api (node_Key node))])]\<rparr>)"
| send:
    "nodes_left p = node # nodes \<Longrightarrow> uuid_Parse api (path_Base api (node_Key node)) = Some u \<Longrightarrow>
     length (queue p) < 1024 \<Longrightarrow>
     pool_step api st key p (p\<lparr>nodes_left := nodes, queue := queue p @ [u]\<rparr>)"
| close:
    "nodes_left p = [] \<Longrightarrow> \<not> closed p \<Longrightarrow> pool_step api st key p (p\<lparr>closed := True\<rparr>)"
| receive:
    "i < length (workers p) \<Longrightarrow> workers p ! i = Idle \<Longrightarrow> queue p = u # rest \<Longrightarrow>
     pool_step api st key p (p\<lparr>queue := rest, workers := (workers p)[i := Busy u]\<rparr>)"
| lookup:
    "i < length (workers p) \<Longrightarrow> workers p ! i = Busy u \<Longrightarrow>
     pool_step api st key p
       (p\<lparr>workers := (workers p)[i := Idle], cm := worker_item api st key u (cm p)\<rparr>)"
| leave:
    "i < length (workers p) \<Longrightarrow> workers p ! i = Idle \<Longrightarrow> queue p = [] \<Longrightarrow> closed p \<Longrightarrow>
     pool_step api st key p (p\<lparr>workers := (workers p)[i := Exited]\<rparr>)"

code_pred pool_step .

subsection \<open>Notions for reasoning about the pool\<close>

text \<open>
  What a worker stores for a UUID: the classifier, when the lookup returns it with a nil
  error; nothing otherwise.
\<close>

definition stored ::
    "('s, 't) etcd_api \<Rightarrow> 's \<Rightarrow> string \<Rightarrow> UUID \<Rightarrow> SimpleClassifier option" where
  "stored api st key u =
     (case GetClassifier api st u key of
        Inl err \<Rightarrow> None
      | Inr (klassifier, Some err) \<Rightarrow> None
      | Inr (klassifier, None) \<Rightarrow> Some klassifier)"

text \<open>The map that holds, for each UUID of a set, what a worker stores for it.\<close>

definition aggregate ::
    "('s, 't) etcd_api \<Rightarrow> 's \<Rightarrow> string \<Rightarrow> UUID set \<Rightarrow> (string \<rightharpoonup> SimpleClassifier)" where
  "aggregate api st key U = (\<lambda>x. if UUID x \<in> U then stored api st key (UUID x) else None)"

definition busy :: "pool \<Rightarrow> UUID set" where
  "busy p = {u. Busy u \<in> set (workers p)}"

text \<open>
  The invariant of the pool started on \<open>nodes\<close>: the map holds what is stored for a set of
  UUIDs which, with the ones in the workers' hands, in the channel and still to be sent,
  makes up all the UUIDs among \<open>nodes\<close>; the channel is closed only after the last node; a
  worker has left only after the channel was closed and empty; the log and the lines still
  to come make up the producer's lines.
\<close>

definition pool_inv :: "('s, 't) etcd_api \<Rightarrow> 's \<Rightarrow> string \<Rightarrow> Node list \<Rightarrow> pool \<Rightarrow> bool" where
  "pool_inv api st key nodes p \<longleftrightarrow>
     length (workers p) = maxGoroutines \<and>
     (\<exists>U. cm p = aggregate api st key U \<and>
          U \<union> busy p \<union> set (queue p) \<union> set (fst (producer api (nodes_left p))) =
          set (fst (producer api nodes))) \<and>
     (closed p \<longrightarrow> nodes_left p = []) \<and>
     (Exited \<in> set (workers p) \<longrightarrow> closed p \<and> queue p = []) \<and>
     logged p @ snd (producer api (nodes_left p)) = snd (producer api nodes)"

text \<open>A quantity that every step of the pool decreases.\<close>

fun worker_weight :: "worker \<Rightarrow> nat" where
  "worker_weight Exited = 0"
| "worker_weight Idle = 1"
| "worker_weight (Busy u) = 2"

definition pool_measure :: "pool \<Rightarrow> nat" where
  "pool_measure p =
     3 * length (nodes_left p) + 2 * length (queue p) + (if closed p then 0 else 1) +
     sum_list (map worker_weight (workers p))"

section \<open>The classifier command\<close>

text \<open>
  The client's \<open>MinionClassifierKeys\<close> and \<open>MinionClassifier\<close>, the two error values and
  \<open>uuid.Parse\<close> are outside the source file and are parameters.
\<close>

record cli_api =
  errNoMinion :: error
  errInvalidUUID :: error
  cli_uuid_Parse :: "string \<Rightarrow> UUID option"
  MinionClassifierKeys :: "UUID \<Rightarrow> string list \<times> error option"
  MinionClassifier :: "UUID \<Rightarrow> string \<Rightarrow> error + SimpleClassifier"

text \<open>
  What the command does: it ends the process with an exit code after showing an error, or
  returns having printed nothing, or returns having printed a table.
\<close>

datatype command_result = Exit nat error | Quiet | Println "(string \<times> string) list"

text \<open>
  Modelled from the spec: \<open>displayError\<close> is not in the source file. The spec says that
  end-user tooling maps any propagated error to a non-zero exit with the error text, so
  \<open>displayError err code\<close> shows \<open>err\<close> and ends the process with \<open>code\<close>.
\<close>

definition displayError :: "error \<Rightarrow> nat \<Rightarrow> command_result" where
  "displayError err code = Exit code err"

fun table_rows ::
    "cli_api \<Rightarrow> UUID \<Rightarrow> string list \<Rightarrow> (string \<times> string) list \<Rightarrow> error + (string \<times> string) list" where
  "table_rows client minion [] rows = Inr rows"
| "table_rows client minion (key # keys) rows =
     (case MinionClassifier client minion key of
        Inl err \<Rightarrow> Inl err
      | Inr classifier \<Rightarrow>
          table_rows client minion keys (rows @ [(Key classifier, Value classifier)]))"

text \<open>The command from \<open>if len(classifierKeys) == 0\<close> on.\<close>

definition show_classifiers :: "cli_api \<Rightarrow> UUID \<Rightarrow> string list \<Rightarrow> command_result" where
  "show_classifiers client minion classifierKeys =
     (if length classifierKeys = 0 then Quiet
      else case table_rows client minion classifierKeys [(''KEY'', ''VALUE'')] of
             Inl err \<Rightarrow> displayError err 1
           | Inr rows \<Rightarrow> Println rows)"

definition execClassifierCommand :: "cli_api \<Rightarrow> string list \<Rightarrow> command_result" where
  "execClassifierCommand client args =
     (case args of
        [] \<Rightarrow> displayError (errNoMinion client) 64
      | arg # _ \<Rightarrow>
          (case cli_uuid_Parse client arg of
             None \<Rightarrow> displayError (errInvalidUUID client) 64
           | Some minion \<Rightarrow>
               (case MinionClassifierKeys client minion of
                  (classifierKeys, None) \<Rightarrow> show_classifiers client minion classifierKeys
                | (classifierKeys, Some (EtcdError code msg)) \<Rightarrow>
                    if code \<noteq> ErrorCodeKeyNotFound then displayError (EtcdError code msg) 1
                    else show_classifiers client minion classifierKeys
                | (classifierKeys, Some (Failure msg)) \<Rightarrow> displayError (Failure msg) 1)))"

section \<open>Concrete hosts, stores and clients\<close>

text \<open>
  Instances of the parameters on which the operations are evaluated. The simulated host
  records the calls made to the binding and the lines logged; a call whose name is listed
  in \<open>sim_failing\<close> fails.
\<close>

record sim =
  sim_failing :: "string list"
  sim_ActiveState :: variant
  sim_UnitFileState :: variant
  sim_job_result :: "string option"
  sim_calls :: "string list"
  sim_log :: "(string \<times> arg list) list"

definition sim_call :: "string \<Rightarrow> sim \<Rightarrow> sim" where
  "sim_call name w = w\<lparr>sim_calls := sim_calls w @ [name]\<rparr>"

definition sim_fails :: "string \<Rightarrow> sim \<Rightarrow> bool" where
  "sim_fails name w = (name \<in> set (sim_failing w))"

definition sim_api :: "(sim, ServiceResource) host_api" where
  "sim_api =
     \<lparr>res_ID = (\<lambda>s. ResourceType s @ ''['' @ Name s @ '']''),
      hcl_DecodeObject =
        (\<lambda>obj. (obj, if Name obj = [] then Some (Failure ''missing name'') else None)),
      mergo_Merge = (\<lambda>dst src. (dst, Some (Failure ''merge failed''))),
      log_Printf = (\<lambda>format args w. w\<lparr>sim_log := sim_log w @ [(format, args)]\<rparr>),
      dbus_New =
        (\<lambda>w. (if sim_fails ''New'' w then Some (Failure ''New'') else None, sim_call ''New'' w)),
      conn_Close = sim_call ''Close'',
      conn_GetUnitProperty =
        (\<lambda>unit name w.
           (if sim_fails ''GetUnitProperty'' w then Inl (Failure ''GetUnitProperty'')
            else Inr \<lparr>prop_Name = name,
                      prop_Value = (if name = ''ActiveState'' then sim_ActiveState w
                                    else sim_UnitFileState w)\<rparr>,
            sim_call ''GetUnitProperty'' w)),
      conn_EnableUnitFiles =
        (\<lambda>units runtime force w.
           if sim_fails ''EnableUnitFiles'' w
           then (Inl (Failure ''EnableUnitFiles''), sim_call ''EnableUnitFiles'' w)
           else (Inr (True, []),
                 (sim_call ''EnableUnitFiles'' w)\<lparr>sim_UnitFileState := VString ''enabled''\<rparr>)),
      conn_DisableUnitFiles =
        (\<lambda>units runtime w.
           if sim_fails ''DisableUnitFiles'' w
           then (Inl (Failure ''DisableUnitFiles''), sim_call ''DisableUnitFiles'' w)
           else (Inr [],
                 (sim_call ''DisableUnitFiles'' w)\<lparr>sim_UnitFileState := VString ''disabled''\<rparr>)),
      conn_Reload =
        (\<lambda>w. (if sim_fails ''Reload'' w then Some (Failure ''Reload'') else None,
              sim_call ''Reload'' w)),
      conn_StartUnit =
        (\<lambda>unit mode w.
           (if sim_fails ''StartUnit'' w then Inl (Failure ''StartUnit'')
            else Inr (7, sim_job_result w),
            sim_call ''StartUnit'' w)),
      conn_StopUnit =
        (\<lambda>unit mode w.
           (if sim_fails ''StopUnit'' w then Inl (Failure ''StopUnit'')
            else Inr (8, sim_job_result w),
            sim_call ''StopUnit'' w))\<rparr>"

definition nginx :: ServiceResource where
  "nginx = \<lparr>Name = ''nginx'', ResourceType = ''service'', State = StateRunning,
             Enable = True, UnitName = ''nginx.service''\<rparr>"

text \<open>A host where the unit is active and disabled, and jobs end as \<open>failed\<close>.\<close>

definition host0 :: sim where
  "host0 = \<lparr>sim_failing = [], sim_ActiveState = VString ''active'',
             sim_UnitFileState = VString ''disabled'', sim_job_result = Some ''failed'',
             sim_calls = [], sim_log = []\<rparr>"

text \<open>
  A store as a list of keys with their nodes; a read of a missing key fails with the
  store's typed error. The test libraries join with a slash, take the text after the last
  slash as the base, accept lower-case hexadecimal text with dashes as a UUID, decode
  \<open>key=value\<close> and refuse to encode the empty task.
\<close>

definition toy_etcd :: "((string \<times> Node) list, string) etcd_api" where
  "toy_etcd =
     \<lparr>EtcdMinionSpace = ''/gru/minion'',
      filepath_Join = (\<lambda>elems. foldr (\<lambda>e acc. if acc = [] then e else e @ ''/'' @ acc) elems []),
      path_Base = (\<lambda>p. rev (takeWhile (\<lambda>c. c \<noteq> CHR ''/'') (rev p))),
      uuid_Parse =
        (\<lambda>k. if k \<noteq> [] \<and> list_all (\<lambda>c. c \<in> set ''0123456789abcdef-'') k then Some (UUID k)
             else None),
      json_Unmarshal =
        (\<lambda>v. case dropWhile (\<lambda>c. c \<noteq> CHR ''='') v of
               [] \<Rightarrow> (\<lparr>Key = [], Value = []\<rparr>, Some (Failure ''invalid character''))
             | _ # val \<Rightarrow> (\<lparr>Key = takeWhile (\<lambda>c. c \<noteq> CHR ''='') v, Value = val\<rparr>, None)),
      json_Marshal =
        (\<lambda>t. if t = [] then ([], Some (Failure ''unsupported value'')) else (t, None)),
      KAPI_Get =
        (\<lambda>k opts st. case map_of st k of
                       None \<Rightarrow> Inl (EtcdError ErrorCodeKeyNotFound ''Key not found'')
                     | Some node \<Rightarrow> Inr node),
      KAPI_CreateInOrder =
        (\<lambda>dir v st.
           (let created = Node (dir @ ''/'' @ replicate (Suc (length st)) (CHR ''0'')) v []
            in (Inr created, st @ [(node_Key created, created)])))\<rparr>"

text \<open>
  A fleet of three minions and one stray key: \<open>a1\<close> has \<open>role=web\<close>, \<open>b2\<close> has no
  classifier \<open>role\<close>, and the stored value of \<open>c3\<close> does not decode. The second of
  the three classifiers listed for \<open>a1\<close> does not decode; the two listed for \<open>b2\<close> do.
\<close>

definition minion_dir :: Node where
  "minion_dir =
     Node ''/gru/minion'' []
       [Node ''/gru/minion/a1'' [] [], Node ''/gru/minion/b2'' [] [],
        Node ''/gru/minion/README'' [] [], Node ''/gru/minion/c3'' [] []]"

definition a1_classifiers :: Node where
  "a1_classifiers =
     Node ''/gru/minion/a1/classifier'' []
       [Node ''/gru/minion/a1/classifier/role'' ''role=web'' [],
        Node ''/gru/minion/a1/classifier/env'' ''garbage'' [],
        Node ''/gru/minion/a1/classifier/zone'' ''zone=eu'' []]"

definition b2_classifiers :: Node where
  "b2_classifiers =
     Node ''/gru/minion/b2/classifier'' []
       [Node ''/gru/minion/b2/classifier/env'' ''env=prod'' [],
        Node ''/gru/minion/b2/classifier/zone'' ''zone=us'' []]"

definition fleet :: "(string \<times> Node) list" where
  "fleet =
     [(''/gru/minion'', minion_dir),
      (''/gru/minion/a1'', Node ''/gru/minion/a1'' [] []),
      (''/gru/minion/a1/classifier'', a1_classifiers),
      (''/gru/minion/a1/classifier/role'',
         Node ''/gru/minion/a1/classifier/role'' ''role=web'' []),
      (''/gru/minion/b2'', Node ''/gru/minion/b2'' [] []),
      (''/gru/minion/b2/classifier'', b2_classifiers),
      (''/gru/minion/c3'', Node ''/gru/minion/c3'' [] []),
      (''/gru/minion/c3/classifier/role'',
         Node ''/gru/minion/c3/classifier/role'' ''garbage'' [])]"

text \<open>
  A client for the command: minion \<open>a1\<close> has no classifier directory, the listing for
  \<open>b2\<close> fails with another error, and \<open>c3\<close> has one classifier.
\<close>

definition toy_client :: cli_api where
  "toy_client =
     \<lparr>errNoMinion = Failure ''Missing minion uuid'',
      errInvalidUUID = Failure ''Invalid uuid given'',
      cli_uuid_Parse = uuid_Parse toy_etcd,
      MinionClassifierKeys =
        (\<lambda>u. if u = UUID ''a1'' then ([], Some (EtcdError ErrorCodeKeyNotFound ''Key not found''))
             else if u = UUID ''b2'' then ([], Some (Failure ''connection refused''))
             else ([''role''], None)),
      MinionClassifier = (\<lambda>u key. Inr \<lparr>Key = key, Value = ''web''\<rparr>)\<rparr>"

section \<open>Properties of the service resource\<close>

subsection \<open>Supporting lemmas\<close>

text \<open>\<open>Evaluate\<close> once the activation state has been read as the string \<open>v\<close>.\<close>

lemma Evaluate_read:
  assumes "unitProperty api s ''ActiveState'' w = (Inr p, w1)" and "prop_Value p = VString v"
  shows "Evaluate api s w =
     (let resourceState =
            \<lparr>Current = (if v \<in> set [''active'', ''reloading'', ''activating''] then StateRunning
                        else if v \<in> set [''inactive'', ''failed'', ''deactivating''] then StateStopped
                        else StateUnknown),
             Want = State s, Update = False\<rparr>
      in case unitIsEnabled api s w1 of
           (Panic, w2) \<Rightarrow> (Panic, w2)
         | (Return (enabled, Some err), w2) \<Rightarrow> (Return (resourceState, Some err), w2)
         | (Return (enabled, None), w2) \<Rightarrow>
             (Return (resourceState\<lparr>Update := (Enable s \<noteq> enabled)\<rparr>, None), w2))"
  unfolding Evaluate_def Let_def using assms
  by (simp del: list.set split: prod.split exec.split option.split)

lemma active_not_inactive:
  "v \<in> set [''active'', ''reloading'', ''activating''] \<Longrightarrow>
   v \<notin> set [''inactive'', ''failed'', ''deactivating'']"
  by auto

text \<open>The simulated host, call by call.\<close>

lemma sim_unitProperty:
  "unitProperty sim_api s name w =
     (if sim_fails ''New'' w then (Inl (Failure ''New''), sim_call ''New'' w)
      else (if sim_fails ''GetUnitProperty'' w then Inl (Failure ''GetUnitProperty'')
            else Inr \<lparr>prop_Name = name,
                      prop_Value = (if name = ''ActiveState'' then sim_ActiveState w
                                    else sim_UnitFileState w)\<rparr>,
            sim_call ''Close'' (sim_call ''GetUnitProperty'' (sim_call ''New'' w))))"
  by (simp add: unitProperty_def sim_api_def sim_fails_def sim_call_def)

lemma host0_fails [simp]: "sim_fails name host0 = False"
  by (simp add: sim_fails_def host0_def)

lemma sim_fails_call [simp]: "sim_fails name (sim_call c w) = sim_fails name w"
  by (simp add: sim_fails_def sim_call_def)

lemma sim_state_call [simp]:
  "sim_ActiveState (sim_call c w) = sim_ActiveState w"
  "sim_UnitFileState (sim_call c w) = sim_UnitFileState w"
  "sim_job_result (sim_call c w) = sim_job_result w"
  "sim_log (sim_call c w) = sim_log w"
  "sim_calls (sim_call c w) = sim_calls w @ [c]"
  by (simp_all add: sim_call_def)

lemma host0_state [simp]:
  "sim_ActiveState host0 = VString ''active''"
  "sim_UnitFileState host0 = VString ''disabled''"
  "sim_job_result host0 = Some ''failed''"
  "sim_calls host0 = []"
  by (simp_all add: host0_def)

subsection \<open>Construction\<close>

text \<open>
  C10. Whenever the declarative object decodes, \<open>NewServiceResource\<close> returns a resource and
  a nil error, whatever the merge of the defaults returned as its error; the resource is the
  merged one with \<open>UnitName\<close> set to its name followed by \<open>.service\<close>.
\<close>

theorem NewServiceResource_decoded:
  assumes "hcl_DecodeObject api obj = (s, None)"
  shows "\<exists>r. NewServiceResource api obj = (Some r, None) \<and>
             r = (fst (mergo_Merge api s defaults))
                   \<lparr>UnitName := Name (fst (mergo_Merge api s defaults)) @ ''.service''\<rparr> \<and>
             UnitName r = Name r @ ''.service''"
  using assms by (simp add: NewServiceResource_def split: prod.split)

theorem NewServiceResource_decoded_witness:
  "hcl_DecodeObject sim_api (nginx\<lparr>UnitName := []\<rparr>) = (nginx\<lparr>UnitName := []\<rparr>, None) \<and>
   snd (mergo_Merge sim_api (nginx\<lparr>UnitName := []\<rparr>) defaults) = Some (Failure ''merge failed'') \<and>
   NewServiceResource sim_api (nginx\<lparr>UnitName := []\<rparr>) = (Some nginx, None) \<and>
   UnitName nginx = Name nginx @ ''.service''"
proof -
  have h: "hcl_DecodeObject sim_api (nginx\<lparr>UnitName := []\<rparr>) = (nginx\<lparr>UnitName := []\<rparr>, None)"
    by (simp add: sim_api_def nginx_def)
  from NewServiceResource_decoded [OF h] h show ?thesis
    by (simp add: sim_api_def nginx_def)
qed

subsection \<open>Evaluate\<close>

text \<open>
  C2. When \<open>Evaluate\<close> returns without error, the activation state was read as a string, the
  enablement check that followed returned some \<open>enabled\<close> without error, and \<open>Update\<close> of the
  returned state is true exactly when the declared \<open>Enable\<close> differs from \<open>enabled\<close>; the
  activation state has no part in it.
\<close>

theorem Evaluate_Update_iff:
  assumes "Evaluate api s w = (Return (st, None), w')"
  shows "\<exists>p v w1 enabled.
           unitProperty api s ''ActiveState'' w = (Inr p, w1) \<and> prop_Value p = VString v \<and>
           unitIsEnabled api s w1 = (Return (enabled, None), w') \<and>
           Update st = (Enable s \<noteq> enabled)"
proof -
  obtain r w1 where r: "unitProperty api s ''ActiveState'' w = (r, w1)" by force
  show ?thesis
  proof (cases r)
    case (Inl e)
    with r assms show ?thesis by (simp add: Evaluate_def)
  next
    case (Inr p)
    show ?thesis
    proof (cases "prop_Value p")
      case VOther
      with r Inr assms show ?thesis by (simp add: Evaluate_def)
    next
      case (VString v)
      note rd = Evaluate_read [OF r [unfolded Inr] VString]
      obtain x w2 where x: "unitIsEnabled api s w1 = (x, w2)" by force
      have "\<exists>enabled. x = Return (enabled, None) \<and> w2 = w' \<and> Update st = (Enable s \<noteq> enabled)"
      proof (cases x)
        case Panic
        with assms x show ?thesis unfolding rd Let_def by simp
      next
        case (Return y)
        obtain enabled e where y: "y = (enabled, e)" by force
        show ?thesis
        proof (cases e)
          case None
          with assms x Return y show ?thesis unfolding rd Let_def
            by (auto simp del: list.set)
        next
          case (Some a)
          with assms x Return y show ?thesis unfolding rd Let_def
            by (simp del: list.set)
        qed
      qed
      with r Inr VString x show ?thesis by auto
    qed
  qed
qed

theorem Evaluate_Update_iff_witness:
  "Evaluate sim_api nginx host0 =
     (Return (\<lparr>Current = StateRunning, Want = StateRunning, Update = True\<rparr>, None),
      snd (Evaluate sim_api nginx host0)) \<and>
   (\<exists>p v w1 enabled.
      unitProperty sim_api nginx ''ActiveState'' host0 = (Inr p, w1) \<and> prop_Value p = VString v \<and>
      unitIsEnabled sim_api nginx w1 = (Return (enabled, None), snd (Evaluate sim_api nginx host0)) \<and>
      Update \<lparr>Current = StateRunning, Want = StateRunning, Update = True\<rparr> = (Enable nginx \<noteq> enabled))"
proof -
  have h: "Evaluate sim_api nginx host0 =
     (Return (\<lparr>Current = StateRunning, Want = StateRunning, Update = True\<rparr>, None),
      snd (Evaluate sim_api nginx host0))"
    by (simp add: Evaluate_def unitIsEnabled_def sim_unitProperty nginx_def)
  from Evaluate_Update_iff [OF h] h show ?thesis by blast
qed

text \<open>
  C6. Once the activation state has been read as the string \<open>v\<close>, every state that
  \<open>Evaluate\<close> returns (with or without an error from the enablement check) has
  \<open>Current = StateRunning\<close> exactly for \<open>active\<close>, \<open>reloading\<close> and \<open>activating\<close>,
  \<open>Current = StateStopped\<close> exactly for \<open>inactive\<close>, \<open>failed\<close> and \<open>deactivating\<close>, and
  \<open>Current = StateUnknown\<close> exactly for every other value.
\<close>

theorem Evaluate_Current:
  assumes "unitProperty api s ''ActiveState'' w = (Inr p, w1)" and "prop_Value p = VString v"
    and "Evaluate api s w = (Return (st, err), w')"
  shows "(Current st = StateRunning \<longleftrightarrow> v \<in> set [''active'', ''reloading'', ''activating'']) \<and>
         (Current st = StateStopped \<longleftrightarrow> v \<in> set [''inactive'', ''failed'', ''deactivating'']) \<and>
         (Current st = StateUnknown \<longleftrightarrow>
            v \<notin> set [''active'', ''reloading'', ''activating''] \<and>
            v \<notin> set [''inactive'', ''failed'', ''deactivating''])"
proof -
  let ?c = "if v \<in> set [''active'', ''reloading'', ''activating''] then StateRunning
            else if v \<in> set [''inactive'', ''failed'', ''deactivating''] then StateStopped
            else StateUnknown"
  note rd = Evaluate_read [OF assms(1,2)]
  obtain x w2 where x: "unitIsEnabled api s w1 = (x, w2)" by force
  have "Current st = ?c"
  proof (cases x)
    case Panic
    with assms(3) x show ?thesis unfolding rd Let_def by simp
  next
    case (Return r)
    obtain enabled e where r: "r = (enabled, e)" by force
    show ?thesis
    proof (cases e)
      case None
      with assms(3) x Return r
      have "st = \<lparr>Current = ?c, Want = State s, Update = (Enable s \<noteq> enabled)\<rparr>"
        unfolding rd Let_def by (simp del: list.set)
      then show ?thesis by (simp del: list.set)
    next
      case (Some a)
      with assms(3) x Return r have "st = \<lparr>Current = ?c, Want = State s, Update = False\<rparr>"
        unfolding rd Let_def by (simp del: list.set)
      then show ?thesis by (simp del: list.set)
    qed
  qed
  with active_not_inactive [of v] show ?thesis
    by (simp del: list.set)
qed

theorem Evaluate_Current_witness:
  "unitProperty sim_api nginx ''ActiveState'' (host0\<lparr>sim_ActiveState := VString ''failed''\<rparr>) =
     (Inr \<lparr>prop_Name = ''ActiveState'', prop_Value = VString ''failed''\<rparr>,
      snd (unitProperty sim_api nginx ''ActiveState'' (host0\<lparr>sim_ActiveState := VString ''failed''\<rparr>))) \<and>
   Evaluate sim_api nginx (host0\<lparr>sim_ActiveState := VString ''failed''\<rparr>) =
     (Return (\<lparr>Current = StateStopped, Want = StateRunning, Update = True\<rparr>, None),
      snd (Evaluate sim_api nginx (host0\<lparr>sim_ActiveState := VString ''failed''\<rparr>))) \<and>
   ''failed'' \<in> set [''inactive'', ''failed'', ''deactivating'']"
proof -
  let ?w = "host0\<lparr>sim_ActiveState := VString ''failed''\<rparr>"
  have f: "\<And>name. sim_fails name ?w = False"
    by (simp add: sim_fails_def host0_def)
  have a: "unitProperty sim_api nginx ''ActiveState'' ?w =
     (Inr \<lparr>prop_Name = ''ActiveState'', prop_Value = VString ''failed''\<rparr>,
      snd (unitProperty sim_api nginx ''ActiveState'' ?w))"
    by (simp add: sim_unitProperty f)
  have e: "Evaluate sim_api nginx ?w =
     (Return (\<lparr>Current = StateStopped, Want = StateRunning, Update = True\<rparr>, None),
      snd (Evaluate sim_api nginx ?w))"
    by (simp add: Evaluate_def unitIsEnabled_def sim_unitProperty f nginx_def)
  from Evaluate_Current [OF a _ e] a e show ?thesis by simp
qed

text \<open>
  C5. Whenever \<open>UnitFileState\<close> is read as a string that is none of the eight recognised
  values, \<open>unitIsEnabled\<close> returns the error \<open>Invalid unit state\<close>; and an \<open>Evaluate\<close>
  that has read the activation state and then makes this read returns that error.
\<close>

theorem unitIsEnabled_invalid:
  assumes "unitProperty api s ''UnitFileState'' w1 = (Inr p, w2)" and "prop_Value p = VString v"
    and "v \<notin> set [''enabled'', ''static'', ''enabled-runtime'', ''linked'', ''linked-runtime'']"
    and "v \<notin> set [''disabled'', ''masked'', ''masked-runtime'']"
  shows "unitIsEnabled api s w1 = (Return (False, Some (Failure ''Invalid unit state'')), w2) \<and>
         (\<forall>w a av. unitProperty api s ''ActiveState'' w = (Inr a, w1) \<and> prop_Value a = VString av \<longrightarrow>
            (\<exists>st. Evaluate api s w = (Return (st, Some (Failure ''Invalid unit state'')), w2)))"
proof -
  have u: "unitIsEnabled api s w1 = (Return (False, Some (Failure ''Invalid unit state'')), w2)"
    using assms by (simp add: unitIsEnabled_def del: list.set)
  have "\<exists>st. Evaluate api s w = (Return (st, Some (Failure ''Invalid unit state'')), w2)"
    if "unitProperty api s ''ActiveState'' w = (Inr a, w1)" and "prop_Value a = VString av"
    for w a av
    unfolding Evaluate_read [OF that] Let_def u by simp
  with u show ?thesis by blast
qed

theorem unitIsEnabled_invalid_witness:
  "fst (unitProperty sim_api nginx ''ActiveState'' (host0\<lparr>sim_UnitFileState := VString ''bad''\<rparr>)) =
     Inr \<lparr>prop_Name = ''ActiveState'', prop_Value = VString ''active''\<rparr> \<and>
   fst (unitProperty sim_api nginx ''UnitFileState''
          (snd (unitProperty sim_api nginx ''ActiveState''
                  (host0\<lparr>sim_UnitFileState := VString ''bad''\<rparr>)))) =
     Inr \<lparr>prop_Name = ''UnitFileState'', prop_Value = VString ''bad''\<rparr> \<and>
   ''bad'' \<notin> set [''enabled'', ''static'', ''enabled-runtime'', ''linked'', ''linked-runtime''] \<and>
   ''bad'' \<notin> set [''disabled'', ''masked'', ''masked-runtime''] \<and>
   unitIsEnabled sim_api nginx
     (snd (unitProperty sim_api nginx ''ActiveState'' (host0\<lparr>sim_UnitFileState := VString ''bad''\<rparr>))) =
     (Return (False, Some (Failure ''Invalid unit state'')),
      snd (Evaluate sim_api nginx (host0\<lparr>sim_UnitFileState := VString ''bad''\<rparr>))) \<and>
   Evaluate sim_api nginx (host0\<lparr>sim_UnitFileState := VString ''bad''\<rparr>) =
     (Return (\<lparr>Current = StateRunning, Want = StateRunning, Update = False\<rparr>,
              Some (Failure ''Invalid unit state'')),
      snd (Evaluate sim_api nginx (host0\<lparr>sim_UnitFileState := VString ''bad''\<rparr>)))"
proof -
  let ?w = "host0\<lparr>sim_UnitFileState := VString ''bad''\<rparr>"
  let ?w1 = "snd (unitProperty sim_api nginx ''ActiveState'' ?w)"
  let ?w2 = "snd (unitProperty sim_api nginx ''UnitFileState'' ?w1)"
  let ?p = "\<lparr>prop_Name = ''UnitFileState'', prop_Value = VString ''bad''\<rparr>"
  let ?a = "\<lparr>prop_Name = ''ActiveState'', prop_Value = VString ''active''\<rparr>"
  have f: "\<And>name. sim_fails name ?w = False"
    by (simp add: sim_fails_def host0_def)
  have a: "unitProperty sim_api nginx ''ActiveState'' ?w = (Inr ?a, ?w1)"
    by (simp add: sim_unitProperty f)
  have p: "unitProperty sim_api nginx ''UnitFileState'' ?w1 = (Inr ?p, ?w2)"
    by (simp add: sim_unitProperty f)
  have v: "prop_Value ?p = VString ''bad''" by simp
  have n1: "''bad'' \<notin> set [''enabled'', ''static'', ''enabled-runtime'', ''linked'', ''linked-runtime'']"
    by simp
  have n2: "''bad'' \<notin> set [''disabled'', ''masked'', ''masked-runtime'']"
    by simp
  have e: "Evaluate sim_api nginx ?w =
     (Return (\<lparr>Current = StateRunning, Want = StateRunning, Update = False\<rparr>,
              Some (Failure ''Invalid unit state'')), ?w2)"
    by (simp add: Evaluate_def unitIsEnabled_def sim_unitProperty f nginx_def)
  note t = unitIsEnabled_invalid [OF p v n1 n2]
  from t [THEN conjunct2, rule_format, OF conjI [OF a]]
  have "\<exists>st. Evaluate sim_api nginx ?w = (Return (st, Some (Failure ''Invalid unit state'')), ?w2)"
    by simp
  have se: "snd (Evaluate sim_api nginx ?w) = ?w2"
    using e by simp
  have af: "fst (unitProperty sim_api nginx ''ActiveState'' ?w) = Inr ?a"
    by (simp add: sim_unitProperty f)
  have pf: "fst (unitProperty sim_api nginx ''UnitFileState'' ?w1) = Inr ?p"
    by (simp add: sim_unitProperty f)
  have u: "unitIsEnabled sim_api nginx ?w1 =
             (Return (False, Some (Failure ''Invalid unit state'')), snd (Evaluate sim_api nginx ?w))"
    unfolding se by (rule t [THEN conjunct1])
  have e': "Evaluate sim_api nginx ?w =
     (Return (\<lparr>Current = StateRunning, Want = StateRunning, Update = False\<rparr>,
              Some (Failure ''Invalid unit state'')), snd (Evaluate sim_api nginx ?w))"
    unfolding se by (rule e)
  show ?thesis
    by (intro conjI) (fact af pf n1 n2 u e')+
qed

text \<open>More of the simulated host.\<close>

lemma sim_daemonReload:
  "daemonReload sim_api s w =
     (if sim_fails ''New'' w then (Some (Failure ''New''), sim_call ''New'' w)
      else (if sim_fails ''Reload'' w then Some (Failure ''Reload'') else None,
            sim_call ''Close'' (sim_call ''Reload'' (sim_call ''New'' w))))"
  by (simp add: daemonReload_def sim_api_def)

lemma sim_log_Printf:
  "log_Printf sim_api format args w = w\<lparr>sim_log := sim_log w @ [(format, args)]\<rparr>"
  by (simp add: sim_api_def)

lemma sim_fails_log [simp]: "sim_fails name (w\<lparr>sim_log := l\<rparr>) = sim_fails name w"
  by (simp add: sim_fails_def)

lemma sim_calls_log [simp]: "sim_call c (w\<lparr>sim_log := l\<rparr>) = (sim_call c w)\<lparr>sim_log := l\<rparr>"
  by (simp add: sim_call_def)

lemma sim_enableUnit_fails:
  "\<not> sim_fails ''New'' w \<Longrightarrow> sim_fails ''EnableUnitFiles'' w \<Longrightarrow>
   enableUnit sim_api s w =
     (Some (Failure ''EnableUnitFiles''),
      (sim_call ''Close'' (sim_call ''EnableUnitFiles'' (sim_call ''New'' w)))
        \<lparr>sim_log := sim_log w @ [(''%s enabling service'', [S (res_ID sim_api s)])]\<rparr>)"
  by (simp add: enableUnit_def sim_api_def)

lemma sim_Create:
  "\<not> sim_fails ''New'' w \<Longrightarrow> \<not> sim_fails ''StartUnit'' w \<Longrightarrow> sim_job_result w = Some result \<Longrightarrow>
   dbus_New sim_api w = (None, sim_call ''New'' w) \<and>
   conn_StartUnit sim_api unit mode
     (log_Printf sim_api ''%s starting service'' [S (res_ID sim_api s)] (sim_call ''New'' w)) =
     (Inr (7, Some result),
      (sim_call ''StartUnit'' (sim_call ''New'' w))
        \<lparr>sim_log := sim_log w @ [(''%s starting service'', [S (res_ID sim_api s)])]\<rparr>)"
  by (simp add: sim_api_def)

lemma sim_Delete:
  "\<not> sim_fails ''New'' w \<Longrightarrow> \<not> sim_fails ''StopUnit'' w \<Longrightarrow> sim_job_result w = Some result \<Longrightarrow>
   dbus_New sim_api w = (None, sim_call ''New'' w) \<and>
   conn_StopUnit sim_api unit mode
     (log_Printf sim_api ''%s stopping service'' [S (res_ID sim_api s)] (sim_call ''New'' w)) =
     (Inr (8, Some result),
      (sim_call ''StopUnit'' (sim_call ''New'' w))
        \<lparr>sim_log := sim_log w @ [(''%s stopping service'', [S (res_ID sim_api s)])]\<rparr>)"
  by (simp add: sim_api_def)

lemma sim_res_ID_nginx: "res_ID sim_api nginx = ''service[nginx]''"
  by (simp add: sim_api_def nginx_def)

lemma sim_Close: "conn_Close sim_api w = sim_call ''Close'' w"
  by (simp add: sim_api_def)

subsection \<open>Create, Delete and Update\<close>

text \<open>
  C9. Once the connection succeeds and the start job (for \<open>Delete\<close>, the stop job) is
  submitted without error, and the result channel delivers \<open>result\<close>, \<open>Create\<close> (\<open>Delete\<close>)
  returns nil whatever \<open>result\<close> is; the result is logged and the connection closed.
\<close>

theorem Create_Delete_job_result:
  "(dbus_New api w = (None, w1) \<and>
    conn_StartUnit api (UnitName s) ''replace''
      (log_Printf api ''%s starting service'' [S (res_ID api s)] w1) =
      (Inr (jobID, Some result), w3) \<longrightarrow>
    Create api s w =
      (Returns None,
       conn_Close api (log_Printf api ''%s systemd job id %d result: %s''
                         [S (res_ID api s), D jobID, S result] w3))) \<and>
   (dbus_New api w = (None, w1) \<and>
    conn_StopUnit api (UnitName s) ''replace''
      (log_Printf api ''%s stopping service'' [S (res_ID api s)] w1) =
      (Inr (jobID', Some result'), w3') \<longrightarrow>
    Delete api s w =
      (Returns None,
       conn_Close api (log_Printf api ''%s systemd job id %d result: %s''
                         [S (res_ID api s), D jobID', S result'] w3')))"
  by (simp add: Create_def Delete_def)

theorem Create_Delete_job_result_witness:
  "dbus_New sim_api host0 = (None, sim_call ''New'' host0) \<and>
   fst (conn_StartUnit sim_api (UnitName nginx) ''replace''
          (log_Printf sim_api ''%s starting service'' [S (res_ID sim_api nginx)]
             (sim_call ''New'' host0))) = Inr (7, Some ''failed'') \<and>
   fst (conn_StopUnit sim_api (UnitName nginx) ''replace''
          (log_Printf sim_api ''%s stopping service'' [S (res_ID sim_api nginx)]
             (sim_call ''New'' host0))) = Inr (8, Some ''failed'') \<and>
   fst (Create sim_api nginx host0) = Returns None \<and>
   fst (Delete sim_api nginx host0) = Returns None \<and>
   sim_log (snd (Create sim_api nginx host0)) =
     [(''%s starting service'', [S ''service[nginx]'']),
      (''%s systemd job id %d result: %s'', [S ''service[nginx]'', D 7, S ''failed''])] \<and>
   sim_log (snd (Delete sim_api nginx host0)) =
     [(''%s stopping service'', [S ''service[nginx]'']),
      (''%s systemd job id %d result: %s'', [S ''service[nginx]'', D 8, S ''failed''])]"
proof -
  let ?w1 = "sim_call ''New'' host0"
  let ?c = "(sim_call ''StartUnit'' ?w1)
              \<lparr>sim_log := sim_log host0 @ [(''%s starting service'', [S (res_ID sim_api nginx)])]\<rparr>"
  let ?d = "(sim_call ''StopUnit'' ?w1)
              \<lparr>sim_log := sim_log host0 @ [(''%s stopping service'', [S (res_ID sim_api nginx)])]\<rparr>"
  have c: "dbus_New sim_api host0 = (None, ?w1) \<and>
           conn_StartUnit sim_api (UnitName nginx) ''replace''
             (log_Printf sim_api ''%s starting service'' [S (res_ID sim_api nginx)] ?w1) =
             (Inr (7, Some ''failed''), ?c)"
    by (rule sim_Create) simp_all
  have d: "dbus_New sim_api host0 = (None, ?w1) \<and>
           conn_StopUnit sim_api (UnitName nginx) ''replace''
             (log_Printf sim_api ''%s stopping service'' [S (res_ID sim_api nginx)] ?w1) =
             (Inr (8, Some ''failed''), ?d)"
    by (rule sim_Delete) simp_all
  from Create_Delete_job_result
         [of sim_api host0 ?w1 nginx 7 "''failed''" ?c 8 "''failed''" ?d] c d
  have r: "Create sim_api nginx host0 =
             (Returns None,
              conn_Close sim_api (log_Printf sim_api ''%s systemd job id %d result: %s''
                 [S (res_ID sim_api nginx), D 7, S ''failed''] ?c))"
          "Delete sim_api nginx host0 =
             (Returns None,
              conn_Close sim_api (log_Printf sim_api ''%s systemd job id %d result: %s''
                 [S (res_ID sim_api nginx), D 8, S ''failed''] ?d))"
    by blast+
  have l: "sim_log host0 = []" by (simp add: host0_def)
  from c d show ?thesis
    by (simp add: r sim_Close sim_log_Printf sim_res_ID_nginx l)
qed

text \<open>
  C3, as the source has it. When the enablement check returns \<open>enabled\<close> without error,
  \<open>Update\<close> runs \<open>enableUnit\<close> if the resource declares \<open>Enable\<close> and the unit is not
  enabled, and \<open>disableUnit\<close> otherwise, drops the error of that step, then runs
  \<open>daemonReload\<close> and returns the reload's error. When the check fails, \<open>Update\<close> returns the
  check's error and the host is as the check left it: nothing is enabled, disabled or
  reloaded.
\<close>

theorem Update_reconciles:
  "(unitIsEnabled api s w = (Return (enabled, None), w1) \<longrightarrow>
      Update_res api s w =
        (case daemonReload api s
                (snd (if Enable s \<and> \<not> enabled then enableUnit api s w1 else disableUnit api s w1)) of
           (err, w3) \<Rightarrow> (Return err, w3))) \<and>
   (unitIsEnabled api s w = (Return (enabled, Some e), w1) \<longrightarrow>
      Update_res api s w = (Return (Some e), w1))"
  by (auto simp: Update_res_def)

text \<open>
  On a host where enabling fails, \<open>Update\<close> still reloads and returns the reload's nil; on a
  host whose enablement state is \<open>bad\<close>, it returns the check's error.
\<close>

theorem Update_reconciles_witness:
  "fst (unitIsEnabled sim_api nginx (host0\<lparr>sim_failing := [''EnableUnitFiles'']\<rparr>)) =
     Return (False, None) \<and>
   fst (enableUnit sim_api nginx
          (snd (unitIsEnabled sim_api nginx (host0\<lparr>sim_failing := [''EnableUnitFiles'']\<rparr>)))) =
     Some (Failure ''EnableUnitFiles'') \<and>
   fst (Update_res sim_api nginx (host0\<lparr>sim_failing := [''EnableUnitFiles'']\<rparr>)) = Return None \<and>
   sim_calls (snd (Update_res sim_api nginx (host0\<lparr>sim_failing := [''EnableUnitFiles'']\<rparr>))) =
     [''New'', ''GetUnitProperty'', ''Close'', ''New'', ''EnableUnitFiles'', ''Close'',
      ''New'', ''Reload'', ''Close''] \<and>
   fst (unitIsEnabled sim_api nginx (host0\<lparr>sim_UnitFileState := VString ''bad''\<rparr>)) =
     Return (False, Some (Failure ''Invalid unit state'')) \<and>
   Update_res sim_api nginx (host0\<lparr>sim_UnitFileState := VString ''bad''\<rparr>) =
     (Return (Some (Failure ''Invalid unit state'')),
      snd (unitIsEnabled sim_api nginx (host0\<lparr>sim_UnitFileState := VString ''bad''\<rparr>)))"
proof -
  let ?w = "host0\<lparr>sim_failing := [''EnableUnitFiles'']\<rparr>"
  let ?w1 = "snd (unitIsEnabled sim_api nginx ?w)"
  let ?v = "host0\<lparr>sim_UnitFileState := VString ''bad''\<rparr>"
  let ?v1 = "snd (unitIsEnabled sim_api nginx ?v)"
  have f: "\<And>name. sim_fails name ?w = (name = ''EnableUnitFiles'')"
    by (auto simp: sim_fails_def host0_def)
  have g: "\<And>name. sim_fails name ?v = False"
    by (simp add: sim_fails_def host0_def)
  have u: "unitIsEnabled sim_api nginx ?w = (Return (False, None), ?w1)"
    by (simp add: unitIsEnabled_def sim_unitProperty f)
  let ?x = "sim_call ''Close'' (sim_call ''GetUnitProperty'' (sim_call ''New'' ?w))"
  have w1: "?w1 = ?x"
    by (simp add: unitIsEnabled_def sim_unitProperty f)
  have en: "enableUnit sim_api nginx ?x =
              (Some (Failure ''EnableUnitFiles''),
               (sim_call ''Close'' (sim_call ''EnableUnitFiles'' (sim_call ''New'' ?x)))
                 \<lparr>sim_log := sim_log ?x @ [(''%s enabling service'', [S (res_ID sim_api nginx)])]\<rparr>)"
    by (rule sim_enableUnit_fails) (simp_all add: f)
  have v: "unitIsEnabled sim_api nginx ?v = (Return (False, Some (Failure ''Invalid unit state'')), ?v1)"
    by (simp add: unitIsEnabled_def sim_unitProperty g)
  from Update_reconciles [of sim_api nginx ?w False ?w1] u
  have r: "Update_res sim_api nginx ?w =
             (case daemonReload sim_api nginx (snd (enableUnit sim_api nginx ?w1)) of
                (err, w3) \<Rightarrow> (Return err, w3))"
    by (simp add: nginx_def)
  from Update_reconciles [of sim_api nginx ?v False ?v1 "Failure ''Invalid unit state''"] v
  have q: "Update_res sim_api nginx ?v = (Return (Some (Failure ''Invalid unit state'')), ?v1)"
    by blast
  have c: "fst (Update_res sim_api nginx ?w) = Return None"
          "sim_calls (snd (Update_res sim_api nginx ?w)) =
             [''New'', ''GetUnitProperty'', ''Close'', ''New'', ''EnableUnitFiles'', ''Close'',
              ''New'', ''Reload'', ''Close'']"
    by (simp_all add: r en sim_daemonReload w1 f)
  have uf: "fst (unitIsEnabled sim_api nginx ?w) = Return (False, None)"
    by (simp add: unitIsEnabled_def sim_unitProperty f)
  have vf: "fst (unitIsEnabled sim_api nginx ?v) = Return (False, Some (Failure ''Invalid unit state''))"
    by (simp add: unitIsEnabled_def sim_unitProperty g)
  from uf vf q c show ?thesis by (simp add: w1 en)
qed

text \<open>
  The claim C3 as stated fails on a host whose enablement state is \<open>invalid\<close>: \<open>Update\<close>
  returns the error of the check, makes no call to \<open>Reload\<close>, and a reload on that host
  would have returned nil.
\<close>

theorem Update_always_reloads_counterexample:
  "fst (Update_res sim_api nginx (host0\<lparr>sim_UnitFileState := VString ''invalid''\<rparr>)) =
     Return (Some (Failure ''Invalid unit state'')) \<and>
   sim_calls (snd (Update_res sim_api nginx (host0\<lparr>sim_UnitFileState := VString ''invalid''\<rparr>))) =
     [''New'', ''GetUnitProperty'', ''Close''] \<and>
   ''Reload'' \<notin> set (sim_calls (snd (Update_res sim_api nginx
                                       (host0\<lparr>sim_UnitFileState := VString ''invalid''\<rparr>)))) \<and>
   fst (daemonReload sim_api nginx
          (snd (Update_res sim_api nginx (host0\<lparr>sim_UnitFileState := VString ''invalid''\<rparr>)))) = None"
proof -
  let ?v = "host0\<lparr>sim_UnitFileState := VString ''invalid''\<rparr>"
  have g: "\<And>name. sim_fails name ?v = False"
    by (simp add: sim_fails_def host0_def)
  have "Update_res sim_api nginx ?v =
          (Return (Some (Failure ''Invalid unit state'')),
           sim_call ''Close'' (sim_call ''GetUnitProperty'' (sim_call ''New'' ?v)))"
    by (simp add: Update_res_def unitIsEnabled_def sim_unitProperty g)
  then show ?thesis
    by (simp add: sim_daemonReload g)
qed

section \<open>Properties of the coordination client\<close>

subsection \<open>The aggregate of a fan-out\<close>

lemma stored_Some: "stored api st key u = Some k \<longleftrightarrow> GetClassifier api st u key = Inr (k, None)"
  by (auto simp: stored_def split: sum.splits prod.splits option.splits)

lemma worker_item_stored:
  "worker_item api st key u m =
     (case stored api st key u of None \<Rightarrow> m | Some k \<Rightarrow> m(uuid_String u \<mapsto> k))"
  by (simp add: worker_item_def stored_def split: sum.split prod.split option.split)

lemma worker_item_aggregate:
  "worker_item api st key u (aggregate api st key U) = aggregate api st key (insert u U)"
proof
  fix x
  obtain s where u: "u = UUID s" by (cases u)
  show "worker_item api st key u (aggregate api st key U) x = aggregate api st key (insert u U) x"
    by (cases "stored api st key (UUID s)") (auto simp: worker_item_stored aggregate_def u)
qed

lemma drain_aggregate:
  "drain api st key us (aggregate api st key U) = aggregate api st key (U \<union> set us)"
proof (induction us arbitrary: U)
  case Nil
  show ?case by simp
next
  case (Cons u us)
  have "insert u U \<union> set us = U \<union> set (u # us)" by auto
  with Cons.IH [of "insert u U"] show ?case
    by (simp add: worker_item_aggregate)
qed

lemma aggregate_empty: "aggregate api st key {} = Map.empty"
  by (simp add: aggregate_def)

lemma drain_empty: "drain api st key us Map.empty = aggregate api st key (set us)"
  using drain_aggregate [of api st key us "{}"] by (simp add: aggregate_empty)

lemma aggregate_at: "u \<in> U \<Longrightarrow> aggregate api st key U (uuid_String u) = stored api st key u"
  by (simp add: aggregate_def)

lemma dom_aggregate:
  "dom (aggregate api st key U) =
     uuid_String ` {u \<in> U. \<exists>k. GetClassifier api st u key = Inr (k, None)}"
proof -
  have "x \<in> dom (aggregate api st key U) \<longleftrightarrow>
        x \<in> uuid_String ` {u \<in> U. \<exists>k. stored api st key u = Some k}" for x
  proof
    assume "x \<in> dom (aggregate api st key U)"
    then have "UUID x \<in> U" and "\<exists>k. stored api st key (UUID x) = Some k"
      by (auto simp: aggregate_def dom_def split: if_splits)
    then have "UUID x \<in> {u \<in> U. \<exists>k. stored api st key u = Some k}" by simp
    then have "uuid_String (UUID x) \<in> uuid_String ` {u \<in> U. \<exists>k. stored api st key u = Some k}"
      by (rule imageI)
    then show "x \<in> uuid_String ` {u \<in> U. \<exists>k. stored api st key u = Some k}" by simp
  next
    assume "x \<in> uuid_String ` {u \<in> U. \<exists>k. stored api st key u = Some k}"
    then obtain u k where "u \<in> U" "stored api st key u = Some k" "x = uuid_String u" by auto
    then show "x \<in> dom (aggregate api st key U)"
      by (auto simp: aggregate_at)
  qed
  then have "dom (aggregate api st key U) =
               uuid_String ` {u \<in> U. \<exists>k. stored api st key u = Some k}"
    by (rule set_eqI)
  then show ?thesis by (simp only: stored_Some)
qed

lemma inj_uuid_String: "inj_on uuid_String A"
  by (rule inj_onI) (simp add: UUID.expand)

subsection \<open>Every schedule of the pool\<close>

lemma set_list_update_sub: "set (ws[i := y]) \<subseteq> insert y (set ws)"
  by (rule set_update_subset_insert)

lemma set_list_update_sup:
  assumes "i < length ws"
  shows "set ws \<subseteq> insert (ws ! i) (set (ws[i := y]))"
proof
  fix x assume "x \<in> set ws"
  then obtain j where j: "j < length ws" "ws ! j = x" by (auto simp: in_set_conv_nth)
  show "x \<in> insert (ws ! i) (set (ws[i := y]))"
  proof (cases "j = i")
    case True
    with j show ?thesis by simp
  next
    case False
    with j have "ws[i := y] ! j = x" by simp
    moreover from j have "j < length (ws[i := y])" by simp
    ultimately have "x \<in> set (ws[i := y])" by (metis nth_mem)
    then show ?thesis by simp
  qed
qed

lemma busy_receive:
  assumes "i < length (workers p)" and "workers p ! i = Idle"
  shows "busy (p\<lparr>queue := rest, workers := (workers p)[i := Busy u]\<rparr>) = insert u (busy p)"
proof -
  have "set ((workers p)[i := Busy u]) \<subseteq> insert (Busy u) (set (workers p))"
    by (rule set_list_update_sub)
  moreover have "set (workers p) \<subseteq> insert Idle (set ((workers p)[i := Busy u]))"
    using set_list_update_sup [OF assms(1), of "Busy u"] assms(2) by simp
  moreover have "Busy u \<in> set ((workers p)[i := Busy u])"
    using assms(1) by (rule set_update_memI)
  ultimately show ?thesis by (auto simp: busy_def)
qed

lemma busy_lookup:
  assumes "i < length (workers p)" and "workers p ! i = Busy u"
  shows "insert u (busy (p\<lparr>workers := (workers p)[i := Idle], cm := m\<rparr>)) = insert u (busy p)"
proof -
  have "set ((workers p)[i := Idle]) \<subseteq> insert Idle (set (workers p))"
    by (rule set_list_update_sub)
  moreover have "set (workers p) \<subseteq> insert (Busy u) (set ((workers p)[i := Idle]))"
    using set_list_update_sup [OF assms(1), of Idle] assms(2) by simp
  ultimately show ?thesis by (auto simp: busy_def)
qed

lemma busy_leave:
  assumes "i < length (workers p)" and "workers p ! i = Idle"
  shows "busy (p\<lparr>workers := (workers p)[i := Exited]\<rparr>) = busy p"
proof -
  have "set ((workers p)[i := Exited]) \<subseteq> insert Exited (set (workers p))"
    by (rule set_list_update_sub)
  moreover have "set (workers p) \<subseteq> insert Idle (set ((workers p)[i := Exited]))"
    using set_list_update_sup [OF assms(1), of Exited] assms(2) by simp
  ultimately show ?thesis by (auto simp: busy_def)
qed

lemma Exited_update: "y \<noteq> Exited \<Longrightarrow> Exited \<in> set (ws[i := y]) \<Longrightarrow> Exited \<in> set ws"
  using set_list_update_sub [of ws i y] by auto

lemma busy_simps [simp]:
  "busy (p\<lparr>nodes_left := ns\<rparr>) = busy p"
  "busy (p\<lparr>queue := q\<rparr>) = busy p"
  "busy (p\<lparr>closed := c\<rparr>) = busy p"
  "busy (p\<lparr>logged := l\<rparr>) = busy p"
  "busy (p\<lparr>cm := m\<rparr>) = busy p"
  by (simp_all add: busy_def)

lemma pool_inv_start: "pool_inv api st key nodes (pool_start nodes)"
  by (auto simp: pool_inv_def pool_start_def busy_def aggregate_empty [symmetric]
           intro!: exI [of _ "{}"])

lemma pool_inv_step:
  assumes "pool_inv api st key nodes p" and "pool_step api st key p q"
  shows "pool_inv api st key nodes q"
  using assms(2)
proof cases
  case (skip_bad node rest)
  with assms(1) show ?thesis
    by (auto simp: pool_inv_def Let_def split: prod.splits)
next
  case (send node rest u)
  from assms(1) obtain U where U: "cm p = aggregate api st key U"
    "U \<union> busy p \<union> set (queue p) \<union> set (fst (producer api (nodes_left p))) =
       set (fst (producer api nodes))"
    by (auto simp: pool_inv_def)
  from send have s: "fst (producer api (nodes_left p)) = u # fst (producer api rest)"
    "snd (producer api (nodes_left p)) = snd (producer api rest)"
    by (simp_all add: Let_def split: prod.splits)
  from U(2) have "U \<union> busy p \<union> set (queue p @ [u]) \<union> set (fst (producer api rest)) =
       set (fst (producer api nodes))"
    unfolding s by auto
  with U(1) assms(1) send s show ?thesis
    by (auto simp: pool_inv_def)
next
  case close
  with assms(1) show ?thesis
    by (auto simp: pool_inv_def)
next
  case (receive i u rest)
  from assms(1) obtain U where U: "cm p = aggregate api st key U"
    "U \<union> busy p \<union> set (queue p) \<union> set (fst (producer api (nodes_left p))) =
       set (fst (producer api nodes))"
    by (auto simp: pool_inv_def)
  note b = busy_receive [OF receive(2,3), where rest = rest and u = u]
  from U(2) receive(4) have "U \<union> insert u (busy p) \<union> set rest \<union> set (fst (producer api (nodes_left p))) =
       set (fst (producer api nodes))"
    by auto
  moreover have "Exited \<notin> set ((workers p)[i := Busy u])"
    using assms(1) receive(4) Exited_update [of "Busy u" "workers p" i]
    by (auto simp: pool_inv_def)
  ultimately show ?thesis
    using U(1) assms(1) unfolding receive(1) pool_inv_def b
    by auto
next
  case (lookup i u)
  from assms(1) obtain U where U: "cm p = aggregate api st key U"
    "U \<union> busy p \<union> set (queue p) \<union> set (fst (producer api (nodes_left p))) =
       set (fst (producer api nodes))"
    by (auto simp: pool_inv_def)
  let ?q = "p\<lparr>workers := (workers p)[i := Idle], cm := worker_item api st key u (cm p)\<rparr>"
  note b = busy_lookup [OF lookup(2,3), where m = "worker_item api st key u (cm p)"]
  have "cm ?q = aggregate api st key (insert u U)"
    by (simp add: U(1) worker_item_aggregate)
  moreover have "insert u U \<union> busy ?q \<union> set (queue ?q) \<union> set (fst (producer api (nodes_left ?q))) =
       set (fst (producer api nodes))"
  proof -
    have "insert u U \<union> busy ?q = U \<union> insert u (busy ?q)" by auto
    also have "\<dots> = U \<union> insert u (busy p)" by (simp only: b)
    also have "\<dots> = U \<union> busy p"
      using lookup(2,3) by (auto simp: busy_def) (metis nth_mem)
    finally show ?thesis using U(2) by simp
  qed
  moreover have "Exited \<in> set (workers ?q) \<Longrightarrow> Exited \<in> set (workers p)"
    using Exited_update [of Idle "workers p" i] by simp
  ultimately show ?thesis
    using assms(1) unfolding lookup(1) pool_inv_def
    by (intro conjI exI [of _ "insert u U"]) auto
next
  case (leave i)
  note b = busy_leave [OF leave(2,3)]
  from assms(1) leave show ?thesis
    unfolding leave(1) pool_inv_def b
    by auto
qed

lemma pool_inv_run:
  "(pool_step api st key)\<^sup>*\<^sup>* (pool_start nodes) p \<Longrightarrow> pool_inv api st key nodes p"
  by (induction rule: rtranclp_induct) (auto intro: pool_inv_start pool_inv_step)

lemma pool_inv_done:
  assumes "pool_inv api st key nodes p" and "pool_done p"
  shows "cm p = aggregate api st key (set (fst (producer api nodes)))"
    and "logged p = snd (producer api nodes)"
proof -
  from assms(1) have "workers p \<noteq> []"
    by (auto simp: pool_inv_def maxGoroutines_def)
  with assms(2) have e: "Exited \<in> set (workers p)"
    by (cases "workers p") (auto simp: pool_done_def)
  with assms(1) have c: "closed p" "queue p = []" "nodes_left p = []"
    by (auto simp: pool_inv_def)
  from assms(2) have "busy p = {}"
    by (auto simp: busy_def pool_done_def list_all_iff)
  with assms(1) c show "cm p = aggregate api st key (set (fst (producer api nodes)))"
    and "logged p = snd (producer api nodes)"
    by (auto simp: pool_inv_def)
qed

subsection \<open>Every schedule ends\<close>

lemma worker_weight_update:
  assumes "i < length ws"
  shows "sum_list (map worker_weight (ws[i := y])) + worker_weight (ws ! i) =
         sum_list (map worker_weight ws) + worker_weight y"
  using assms
proof (induction ws arbitrary: i)
  case Nil
  then show ?case by simp
next
  case (Cons w ws)
  then show ?case by (cases i) auto
qed

text \<open>Each step of the pool decreases the measure: no schedule runs forever.\<close>

lemma pool_step_measure:
  assumes "pool_step api st key p q"
  shows "pool_measure q < pool_measure p"
  using assms
proof cases
  case (skip_bad node rest)
  then show ?thesis by (simp add: pool_measure_def)
next
  case (send node rest u)
  then show ?thesis by (simp add: pool_measure_def)
next
  case close
  then show ?thesis by (simp add: pool_measure_def)
next
  case (receive i u rest)
  with worker_weight_update [OF receive(2), of "Busy u"] show ?thesis
    by (simp add: pool_measure_def)
next
  case (lookup i u)
  with worker_weight_update [OF lookup(2), of Idle] show ?thesis
    by (simp add: pool_measure_def)
next
  case (leave i)
  with worker_weight_update [OF leave(2), of Exited] show ?thesis
    by (simp add: pool_measure_def)
qed

text \<open>A pool in which some worker has not left its loop can take a step.\<close>

lemma pool_progress:
  assumes "\<not> pool_done p"
  shows "\<exists>q. pool_step api st key p q"
proof -
  from assms obtain i where i: "i < length (workers p)" "workers p ! i \<noteq> Exited"
    by (auto simp: pool_done_def list_all_length)
  show ?thesis
  proof (cases "workers p ! i")
    case Exited
    with i show ?thesis by simp
  next
    case (Busy u)
    with i show ?thesis by (blast intro: pool_step.lookup)
  next
    case Idle
    show ?thesis
    proof (cases "queue p")
      case (Cons u rest)
      with i Idle show ?thesis by (blast intro: pool_step.receive)
    next
      case Nil
      show ?thesis
      proof (cases "closed p")
        case True
        with i Idle Nil show ?thesis by (blast intro: pool_step.leave)
      next
        case False
        show ?thesis
        proof (cases "nodes_left p")
          case Nil
          with False show ?thesis by (blast intro: pool_step.close)
        next
          case (Cons node rest)
          show ?thesis
          proof (cases "uuid_Parse api (path_Base api (node_Key node))")
            case None
            with Cons show ?thesis by (blast intro: pool_step.skip_bad)
          next
            case (Some u)
            from Cons Some \<open>queue p = []\<close> show ?thesis
              by (auto intro!: exI pool_step.send)
          qed
        qed
      qed
    qed
  qed
qed

text \<open>One schedule that ends: a single worker takes each UUID as soon as it is sent.\<close>

lemma pool_run_nodes:
  assumes "nodes_left p = ns" and "i < length (workers p)" and "workers p ! i = Idle"
    and "queue p = []"
  shows "\<exists>q. (pool_step api st key)\<^sup>*\<^sup>* p q \<and> nodes_left q = [] \<and> queue q = [] \<and>
             workers q = workers p \<and> closed q = closed p"
  using assms
proof (induction ns arbitrary: p)
  case Nil
  then show ?case by blast
next
  case (Cons node rest)
  show ?case
  proof (cases "uuid_Parse api (path_Base api (node_Key node))")
    case None
    let ?p1 = "p\<lparr>nodes_left := rest,
                  logged := logged p @ [(''Bad minion uuid found: %s'' @ [CHR 0x0A],
                                         [S (path_Base api (node_Key node))])]\<rparr>"
    from Cons.prems(1) None have s: "pool_step api st key p ?p1"
      by (rule pool_step.skip_bad)
    from Cons.prems have "\<exists>q. (pool_step api st key)\<^sup>*\<^sup>* ?p1 q \<and> nodes_left q = [] \<and> queue q = [] \<and>
             workers q = workers ?p1 \<and> closed q = closed ?p1"
      by (intro Cons.IH) simp_all
    then obtain q where "(pool_step api st key)\<^sup>*\<^sup>* ?p1 q" "nodes_left q = []" "queue q = []"
      "workers q = workers p" "closed q = closed p"
      by auto
    with s show ?thesis
      by (blast intro: converse_rtranclp_into_rtranclp)
  next
    case (Some u)
    let ?p1 = "p\<lparr>nodes_left := rest, queue := queue p @ [u]\<rparr>"
    let ?p2 = "?p1\<lparr>queue := [], workers := (workers ?p1)[i := Busy u]\<rparr>"
    let ?p3 = "?p2\<lparr>workers := (workers ?p2)[i := Idle],
                    cm := worker_item api st key u (cm ?p2)\<rparr>"
    from Cons.prems(1) Some have s1: "pool_step api st key p ?p1"
      by (rule pool_step.send) (simp add: Cons.prems)
    have s2: "pool_step api st key ?p1 ?p2"
      by (rule pool_step.receive) (simp_all add: Cons.prems)
    have s3: "pool_step api st key ?p2 ?p3"
      by (rule pool_step.lookup [where u = u]) (simp_all add: Cons.prems)
    have w: "workers ?p3 = workers p"
      using Cons.prems(2,3) by (simp add: list_update_same_conv)
    have "\<exists>q. (pool_step api st key)\<^sup>*\<^sup>* ?p3 q \<and> nodes_left q = [] \<and> queue q = [] \<and>
             workers q = workers ?p3 \<and> closed q = closed ?p3"
      using Cons.prems w by (intro Cons.IH) simp_all
    then obtain q where "(pool_step api st key)\<^sup>*\<^sup>* ?p3 q" "nodes_left q = []" "queue q = []"
      "workers q = workers p" "closed q = closed p"
      using w by auto
    with s1 s2 s3 show ?thesis
      by (blast intro: converse_rtranclp_into_rtranclp)
  qed
qed

lemma pool_run_leave:
  assumes "workers p = replicate k Exited @ replicate n Idle" and "closed p" and "queue p = []"
  shows "\<exists>q. (pool_step api st key)\<^sup>*\<^sup>* p q \<and> pool_done q"
  using assms
proof (induction n arbitrary: p k)
  case 0
  then have "pool_done p" by (simp add: pool_done_def list_all_iff)
  then show ?case by blast
next
  case (Suc n)
  let ?p1 = "p\<lparr>workers := (workers p)[k := Exited]\<rparr>"
  have k: "k < length (workers p)" "workers p ! k = Idle"
    using Suc.prems(1) by (simp_all add: nth_append)
  then have s: "pool_step api st key p ?p1"
    using Suc.prems(2,3) by (blast intro: pool_step.leave)
  have "workers ?p1 = replicate (Suc k) Exited @ replicate n Idle"
    using Suc.prems(1) by (simp add: list_update_append replicate_app_Cons_same)
  then have "\<exists>q. (pool_step api st key)\<^sup>*\<^sup>* ?p1 q \<and> pool_done q"
    using Suc.prems(2,3) by (intro Suc.IH [where k = "Suc k"]) simp_all
  with s show ?case
    by (blast intro: converse_rtranclp_into_rtranclp)
qed

lemma pool_can_finish:
  "\<exists>q. (pool_step api st key)\<^sup>*\<^sup>* (pool_start nodes) q \<and> pool_done q"
proof -
  let ?p = "pool_start nodes"
  have "\<exists>q. (pool_step api st key)\<^sup>*\<^sup>* ?p q \<and> nodes_left q = [] \<and> queue q = [] \<and>
             workers q = workers ?p \<and> closed q = closed ?p"
    by (rule pool_run_nodes [where i = 0 and ns = nodes])
       (simp_all add: pool_start_def maxGoroutines_def)
  then obtain q where q: "(pool_step api st key)\<^sup>*\<^sup>* ?p q" "nodes_left q = []" "queue q = []"
    "workers q = replicate maxGoroutines Idle" "\<not> closed q"
    by (auto simp: pool_start_def)
  let ?q1 = "q\<lparr>closed := True\<rparr>"
  from q have s: "pool_step api st key q ?q1"
    by (blast intro: pool_step.close)
  have "\<exists>r. (pool_step api st key)\<^sup>*\<^sup>* ?q1 r \<and> pool_done r"
    by (rule pool_run_leave [where k = 0 and n = maxGoroutines]) (simp_all add: q)
  then obtain r where "(pool_step api st key)\<^sup>*\<^sup>* ?q1 r" "pool_done r" by blast
  with q(1) s have "(pool_step api st key)\<^sup>*\<^sup>* ?p r"
    by (meson rtranclp.rtrancl_into_rtrancl rtranclp_trans)
  with \<open>pool_done r\<close> show ?thesis by blast
qed

subsection \<open>The fleet-wide classifier query\<close>

text \<open>The test store and libraries, call by call.\<close>

lemma toy_Join:
  "filepath_Join toy_etcd [a] = a"
  "b \<noteq> [] \<Longrightarrow> filepath_Join toy_etcd [a, b] = a @ ''/'' @ b"
  "c \<noteq> [] \<Longrightarrow> filepath_Join toy_etcd [a, b, c] = a @ ''/'' @ b @ ''/'' @ c"
  "d \<noteq> [] \<Longrightarrow> filepath_Join toy_etcd [a, b, c, d] = a @ ''/'' @ b @ ''/'' @ c @ ''/'' @ d"
  by (simp_all add: toy_etcd_def)

lemma toy_Get:
  "KAPI_Get toy_etcd k opts st =
     (case map_of st k of
        None \<Rightarrow> Inl (EtcdError ErrorCodeKeyNotFound ''Key not found'')
      | Some node \<Rightarrow> Inr node)"
  by (simp add: toy_etcd_def)

lemma toy_space: "EtcdMinionSpace toy_etcd = ''/gru/minion''"
  by (simp add: toy_etcd_def)

lemma toy_Unmarshal:
  "json_Unmarshal toy_etcd ''role=web'' = (\<lparr>Key = ''role'', Value = ''web''\<rparr>, None)"
  "json_Unmarshal toy_etcd ''env=prod'' = (\<lparr>Key = ''env'', Value = ''prod''\<rparr>, None)"
  "json_Unmarshal toy_etcd ''zone=us'' = (\<lparr>Key = ''zone'', Value = ''us''\<rparr>, None)"
  "json_Unmarshal toy_etcd ''garbage'' =
     (\<lparr>Key = [], Value = []\<rparr>, Some (Failure ''invalid character''))"
  by (simp_all add: toy_etcd_def)

lemma toy_producer:
  "producer toy_etcd (node_Nodes minion_dir) =
     ([UUID ''a1'', UUID ''b2'', UUID ''c3''],
      [(''Bad minion uuid found: %s'' @ [CHR 0x0A], [S ''README''])])"
  by (simp add: minion_dir_def toy_etcd_def)

lemma toy_GetClassifier:
  "GetClassifier toy_etcd fleet (UUID ''a1'') ''role'' = Inr (\<lparr>Key = ''role'', Value = ''web''\<rparr>, None)"
  "GetClassifier toy_etcd fleet (UUID ''b2'') ''role'' =
     Inl (EtcdError ErrorCodeKeyNotFound ''Key not found'')"
  "GetClassifier toy_etcd fleet (UUID ''c3'') ''role'' =
     Inr (\<lparr>Key = [], Value = []\<rparr>, Some (Failure ''invalid character''))"
  by (simp_all add: GetClassifier_def toy_Join toy_Get toy_space toy_Unmarshal fleet_def)

text \<open>
  C1. When the listing of the minions succeeds, \<open>GetClassifiedMinions\<close> returns a map and a
  nil error. The map holds, under the UUID string of each enumerated minion whose lookup
  returns a classifier with a nil error, that classifier; it holds nothing for an enumerated
  minion whose lookup fails; its keys are exactly the UUID strings of the former, one key
  for each of them. Every schedule of the producer and the workers that runs to the end
  leaves this map in the concurrent map; some schedule runs to the end, a schedule that has
  not ended can go on, and every step decreases \<open>pool_measure\<close>.
\<close>

theorem GetClassifiedMinions_exact:
  assumes "KAPI_Get api (EtcdMinionSpace api) None st = Inr node"
  shows "\<exists>m. GetClassifiedMinions api st key = ((Some m, None), snd (producer api (node_Nodes node))) \<and>
     (\<forall>u k. u \<in> set (fst (producer api (node_Nodes node))) \<and>
            GetClassifier api st u key = Inr (k, None) \<longrightarrow> m (uuid_String u) = Some k) \<and>
     (\<forall>u. u \<in> set (fst (producer api (node_Nodes node))) \<and>
          (\<nexists>k. GetClassifier api st u key = Inr (k, None)) \<longrightarrow> m (uuid_String u) = None) \<and>
     dom m = uuid_String ` {u \<in> set (fst (producer api (node_Nodes node))).
                              \<exists>k. GetClassifier api st u key = Inr (k, None)} \<and>
     card (dom m) = card {u \<in> set (fst (producer api (node_Nodes node))).
                            \<exists>k. GetClassifier api st u key = Inr (k, None)} \<and>
     (\<forall>p. (pool_step api st key)\<^sup>*\<^sup>* (pool_start (node_Nodes node)) p \<and> pool_done p \<longrightarrow>
          cm p = m \<and> logged p = snd (producer api (node_Nodes node))) \<and>
     (\<exists>p. (pool_step api st key)\<^sup>*\<^sup>* (pool_start (node_Nodes node)) p \<and> pool_done p) \<and>
     (\<forall>p. (pool_step api st key)\<^sup>*\<^sup>* (pool_start (node_Nodes node)) p \<and> \<not> pool_done p \<longrightarrow>
          (\<exists>q. pool_step api st key p q)) \<and>
     (\<forall>p q. pool_step api st key p q \<longrightarrow> pool_measure q < pool_measure p)"
proof -
  let ?sent = "fst (producer api (node_Nodes node))"
  let ?m = "aggregate api st key (set ?sent)"
  have r: "GetClassifiedMinions api st key = ((Some ?m, None), snd (producer api (node_Nodes node)))"
    using assms by (simp add: GetClassifiedMinions_def drain_empty split: prod.split)
  have a: "?m (uuid_String u) = Some k"
    if "u \<in> set ?sent" and "GetClassifier api st u key = Inr (k, None)" for u k
    using that by (simp add: aggregate_at stored_Some)
  have b: "?m (uuid_String u) = None"
    if "u \<in> set ?sent" and "\<nexists>k. GetClassifier api st u key = Inr (k, None)" for u
  proof (cases "stored api st key u")
    case None
    with that(1) show ?thesis by (simp add: aggregate_at)
  next
    case (Some k)
    with that(2) show ?thesis by (simp add: stored_Some)
  qed
  have d: "dom ?m = uuid_String ` {u \<in> set ?sent. \<exists>k. GetClassifier api st u key = Inr (k, None)}"
    by (rule dom_aggregate)
  have c: "card (dom ?m) = card {u \<in> set ?sent. \<exists>k. GetClassifier api st u key = Inr (k, None)}"
    unfolding d by (rule card_image) (rule inj_uuid_String)
  have e: "cm p = ?m \<and> logged p = snd (producer api (node_Nodes node))"
    if "(pool_step api st key)\<^sup>*\<^sup>* (pool_start (node_Nodes node)) p" and "pool_done p" for p
    using pool_inv_done [OF pool_inv_run [OF that(1)] that(2)] by simp
  have f: "\<exists>p. (pool_step api st key)\<^sup>*\<^sup>* (pool_start (node_Nodes node)) p \<and> pool_done p"
    by (rule pool_can_finish)
  have g: "\<exists>q. pool_step api st key p q" if "\<not> pool_done p" for p
    using that by (rule pool_progress)
  have h: "pool_measure q < pool_measure p" if "pool_step api st key p q" for p q
    using that by (rule pool_step_measure)
  show ?thesis
    apply (rule exI [of _ ?m])
    apply (intro conjI)
            apply (rule r)
           apply (blast intro: a)
          apply (blast intro: b)
         apply (rule d)
        apply (rule c)
       apply (blast dest: e)
      apply (rule f)
     apply (blast intro: g)
    apply (blast intro: h)
    done
qed

theorem GetClassifiedMinions_exact_witness:
  "KAPI_Get toy_etcd (EtcdMinionSpace toy_etcd) None fleet = Inr minion_dir \<and>
   fst (producer toy_etcd (node_Nodes minion_dir)) = [UUID ''a1'', UUID ''b2'', UUID ''c3''] \<and>
   (\<exists>m. GetClassifiedMinions toy_etcd fleet ''role'' =
           ((Some m, None), [(''Bad minion uuid found: %s'' @ [CHR 0x0A], [S ''README''])]) \<and>
        m ''a1'' = Some \<lparr>Key = ''role'', Value = ''web''\<rparr> \<and> m ''b2'' = None \<and> m ''c3'' = None \<and>
        dom m = {''a1''} \<and> card (dom m) = 1 \<and>
        (\<exists>p. (pool_step toy_etcd fleet ''role'')\<^sup>*\<^sup>* (pool_start (node_Nodes minion_dir)) p \<and>
             pool_done p \<and> cm p = m)) \<and>
   \<not> pool_done (pool_start (node_Nodes minion_dir)) \<and>
   (\<exists>q. pool_step toy_etcd fleet ''role'' (pool_start (node_Nodes minion_dir)) q \<and>
        pool_measure q < pool_measure (pool_start (node_Nodes minion_dir)))"
proof -
  have h: "KAPI_Get toy_etcd (EtcdMinionSpace toy_etcd) None fleet = Inr minion_dir"
    by (simp add: toy_Get toy_space fleet_def)
  let ?ok = "{u \<in> set (fst (producer toy_etcd (node_Nodes minion_dir))).
                \<exists>k. GetClassifier toy_etcd fleet u ''role'' = Inr (k, None)}"
  have ok: "?ok = {UUID ''a1''}"
    unfolding toy_producer by (auto simp: toy_GetClassifier)
  from GetClassifiedMinions_exact [OF h, of "''role''"] obtain m where
    "GetClassifiedMinions toy_etcd fleet ''role'' =
       ((Some m, None), snd (producer toy_etcd (node_Nodes minion_dir))) \<and>
     (\<forall>u k. u \<in> set (fst (producer toy_etcd (node_Nodes minion_dir))) \<and>
            GetClassifier toy_etcd fleet u ''role'' = Inr (k, None) \<longrightarrow> m (uuid_String u) = Some k) \<and>
     (\<forall>u. u \<in> set (fst (producer toy_etcd (node_Nodes minion_dir))) \<and>
          (\<nexists>k. GetClassifier toy_etcd fleet u ''role'' = Inr (k, None)) \<longrightarrow> m (uuid_String u) = None) \<and>
     dom m = uuid_String ` ?ok \<and>
     card (dom m) = card ?ok \<and>
     (\<forall>p. (pool_step toy_etcd fleet ''role'')\<^sup>*\<^sup>* (pool_start (node_Nodes minion_dir)) p \<and> pool_done p \<longrightarrow>
          cm p = m \<and> logged p = snd (producer toy_etcd (node_Nodes minion_dir))) \<and>
     (\<exists>p. (pool_step toy_etcd fleet ''role'')\<^sup>*\<^sup>* (pool_start (node_Nodes minion_dir)) p \<and> pool_done p) \<and>
     (\<forall>p. (pool_step toy_etcd fleet ''role'')\<^sup>*\<^sup>* (pool_start (node_Nodes minion_dir)) p \<and> \<not> pool_done p \<longrightarrow>
          (\<exists>q. pool_step toy_etcd fleet ''role'' p q)) \<and>
     (\<forall>p q. pool_step toy_etcd fleet ''role'' p q \<longrightarrow> pool_measure q < pool_measure p)"
    ..
  note m1 = this [THEN conjunct1] and r1 = this [THEN conjunct2]
  note m2 = r1 [THEN conjunct1] and r2 = r1 [THEN conjunct2]
  note m3 = r2 [THEN conjunct1] and r3 = r2 [THEN conjunct2]
  note m4 = r3 [THEN conjunct1] and r4 = r3 [THEN conjunct2]
  note m5 = r4 [THEN conjunct1] and r5 = r4 [THEN conjunct2]
  note m6 = r5 [THEN conjunct1] and r6 = r5 [THEN conjunct2]
  note m7 = r6 [THEN conjunct1] and r7 = r6 [THEN conjunct2]
  note m8 = r7 [THEN conjunct1] and m9 = r7 [THEN conjunct2]
  have nd: "\<not> pool_done (pool_start (node_Nodes minion_dir))"
    by (simp add: pool_done_def pool_start_def maxGoroutines_def list_all_iff)
  with m8 have "\<exists>q. pool_step toy_etcd fleet ''role'' (pool_start (node_Nodes minion_dir)) q"
    by blast
  with m9 have st: "\<exists>q. pool_step toy_etcd fleet ''role'' (pool_start (node_Nodes minion_dir)) q \<and>
        pool_measure q < pool_measure (pool_start (node_Nodes minion_dir))"
    by blast
  from m2 [rule_format, of "UUID ''a1''" "\<lparr>Key = ''role'', Value = ''web''\<rparr>"]
  have a1: "m ''a1'' = Some \<lparr>Key = ''role'', Value = ''web''\<rparr>"
    by (simp add: toy_producer toy_GetClassifier)
  from m3 [rule_format, of "UUID ''b2''"] have b2: "m ''b2'' = None"
    by (simp add: toy_producer toy_GetClassifier)
  from m3 [rule_format, of "UUID ''c3''"] have c3: "m ''c3'' = None"
    by (simp add: toy_producer toy_GetClassifier)
  from m6 m7 have e: "\<exists>p. (pool_step toy_etcd fleet ''role'')\<^sup>*\<^sup>* (pool_start (node_Nodes minion_dir)) p \<and>
             pool_done p \<and> cm p = m"
    by (elim exE) (intro exI conjI, auto)
  have d: "dom m = {''a1''}" "card (dom m) = 1"
    using m4 m5 unfolding ok by simp_all
  have g: "GetClassifiedMinions toy_etcd fleet ''role'' =
           ((Some m, None), [(''Bad minion uuid found: %s'' @ [CHR 0x0A], [S ''README''])])"
    using m1 by (simp add: toy_producer)
  have p: "fst (producer toy_etcd (node_Nodes minion_dir)) = [UUID ''a1'', UUID ''b2'', UUID ''c3'']"
    by (simp add: toy_producer)
  have "\<exists>m. GetClassifiedMinions toy_etcd fleet ''role'' =
           ((Some m, None), [(''Bad minion uuid found: %s'' @ [CHR 0x0A], [S ''README''])]) \<and>
        m ''a1'' = Some \<lparr>Key = ''role'', Value = ''web''\<rparr> \<and> m ''b2'' = None \<and> m ''c3'' = None \<and>
        dom m = {''a1''} \<and> card (dom m) = 1 \<and>
        (\<exists>p. (pool_step toy_etcd fleet ''role'')\<^sup>*\<^sup>* (pool_start (node_Nodes minion_dir)) p \<and>
             pool_done p \<and> cm p = m)"
    by (intro conjI exI [of _ m]) (fact g a1 b2 c3 d e)+
  with h p nd st show ?thesis
    by (intro conjI)
qed

subsection \<open>Listing all classifiers of a minion\<close>

lemma decode_children_prefix:
  assumes "\<forall>n\<in>set pre. snd (json_Unmarshal api (node_Value n)) = None"
  shows "decode_children api (pre @ rest) acc =
         decode_children api rest (acc @ map (\<lambda>n. fst (json_Unmarshal api (node_Value n))) pre)"
  using assms
proof (induction pre arbitrary: acc)
  case Nil
  show ?case by simp
next
  case (Cons n pre)
  obtain k where "json_Unmarshal api (node_Value n) = (k, None)"
    using Cons.prems by (cases "json_Unmarshal api (node_Value n)") auto
  with Cons show ?case by simp
qed

text \<open>
  C4, as the source has it. \<open>GetAllClassifiers\<close> lists the classifier directory recursively
  and decodes the children in order. When a child fails to decode and the ones before it
  decoded, the call returns that decode error together with the classifiers decoded from
  the children before it; no later child is decoded. When every child decodes, the call
  returns all the classifiers and a nil error.
\<close>

theorem GetAllClassifiers_decode:
  assumes "KAPI_Get api (filepath_Join api [EtcdMinionSpace api, uuid_String u, ''classifier''])
             (Some \<lparr>Recursive = True\<rparr>) st = Inr node"
  shows "(node_Nodes node = pre @ bad # post \<and>
          (\<forall>n\<in>set pre. snd (json_Unmarshal api (node_Value n)) = None) \<and>
          snd (json_Unmarshal api (node_Value bad)) = Some err \<longrightarrow>
            GetAllClassifiers api st u =
              (map (\<lambda>n. fst (json_Unmarshal api (node_Value n))) pre, Some err)) \<and>
         ((\<forall>n\<in>set (node_Nodes node). snd (json_Unmarshal api (node_Value n)) = None) \<longrightarrow>
            GetAllClassifiers api st u =
              (map (\<lambda>n. fst (json_Unmarshal api (node_Value n))) (node_Nodes node), None))"
proof (intro conjI impI)
  assume a: "node_Nodes node = pre @ bad # post \<and>
          (\<forall>n\<in>set pre. snd (json_Unmarshal api (node_Value n)) = None) \<and>
          snd (json_Unmarshal api (node_Value bad)) = Some err"
  then obtain k where "json_Unmarshal api (node_Value bad) = (k, Some err)"
    by (cases "json_Unmarshal api (node_Value bad)") auto
  with a assms show "GetAllClassifiers api st u =
              (map (\<lambda>n. fst (json_Unmarshal api (node_Value n))) pre, Some err)"
    by (simp add: GetAllClassifiers_def decode_children_prefix)
next
  assume "\<forall>n\<in>set (node_Nodes node). snd (json_Unmarshal api (node_Value n)) = None"
  from decode_children_prefix [OF this, of "[]" "[]"] assms
  show "GetAllClassifiers api st u =
              (map (\<lambda>n. fst (json_Unmarshal api (node_Value n))) (node_Nodes node), None)"
    by (simp add: GetAllClassifiers_def)
qed

theorem GetAllClassifiers_decode_witness:
  "KAPI_Get toy_etcd (filepath_Join toy_etcd [EtcdMinionSpace toy_etcd, uuid_String (UUID ''a1''), ''classifier''])
     (Some \<lparr>Recursive = True\<rparr>) fleet = Inr a1_classifiers \<and>
   node_Nodes a1_classifiers =
     [Node ''/gru/minion/a1/classifier/role'' ''role=web'' []] @
     Node ''/gru/minion/a1/classifier/env'' ''garbage'' [] #
     [Node ''/gru/minion/a1/classifier/zone'' ''zone=eu'' []] \<and>
   GetAllClassifiers toy_etcd fleet (UUID ''a1'') =
     ([\<lparr>Key = ''role'', Value = ''web''\<rparr>], Some (Failure ''invalid character'')) \<and>
   KAPI_Get toy_etcd (filepath_Join toy_etcd [EtcdMinionSpace toy_etcd, uuid_String (UUID ''b2''), ''classifier''])
     (Some \<lparr>Recursive = True\<rparr>) fleet = Inr b2_classifiers \<and>
   GetAllClassifiers toy_etcd fleet (UUID ''b2'') =
     ([\<lparr>Key = ''env'', Value = ''prod''\<rparr>, \<lparr>Key = ''zone'', Value = ''us''\<rparr>], None)"
proof -
  have a: "KAPI_Get toy_etcd
             (filepath_Join toy_etcd [EtcdMinionSpace toy_etcd, uuid_String (UUID ''a1''), ''classifier''])
             (Some \<lparr>Recursive = True\<rparr>) fleet = Inr a1_classifiers"
    by (simp add: toy_Join toy_Get toy_space fleet_def)
  have b: "KAPI_Get toy_etcd
             (filepath_Join toy_etcd [EtcdMinionSpace toy_etcd, uuid_String (UUID ''b2''), ''classifier''])
             (Some \<lparr>Recursive = True\<rparr>) fleet = Inr b2_classifiers"
    by (simp add: toy_Join toy_Get toy_space fleet_def)
  have n: "node_Nodes a1_classifiers =
     [Node ''/gru/minion/a1/classifier/role'' ''role=web'' []] @
     Node ''/gru/minion/a1/classifier/env'' ''garbage'' [] #
     [Node ''/gru/minion/a1/classifier/zone'' ''zone=eu'' []]"
    by (simp add: a1_classifiers_def)
  from GetAllClassifiers_decode [OF a,
      of "[Node ''/gru/minion/a1/classifier/role'' ''role=web'' []]"
         "Node ''/gru/minion/a1/classifier/env'' ''garbage'' []"
         "[Node ''/gru/minion/a1/classifier/zone'' ''zone=eu'' []]"
         "Failure ''invalid character''"] n
  have ra: "GetAllClassifiers toy_etcd fleet (UUID ''a1'') =
     ([\<lparr>Key = ''role'', Value = ''web''\<rparr>], Some (Failure ''invalid character''))"
    by (simp add: toy_Unmarshal)
  from GetAllClassifiers_decode [OF b]
  have rb: "GetAllClassifiers toy_etcd fleet (UUID ''b2'') =
     ([\<lparr>Key = ''env'', Value = ''prod''\<rparr>, \<lparr>Key = ''zone'', Value = ''us''\<rparr>], None)"
    by (simp add: b2_classifiers_def toy_Unmarshal)
  from a b n ra rb show ?thesis by simp
qed

text \<open>
  The claim C4 as stated fails on minion \<open>a1\<close>, whose second classifier does not decode:
  the call returns the decode error and, with it, the list of the one classifier decoded
  before.
\<close>

theorem GetAllClassifiers_partial_counterexample:
  "GetAllClassifiers toy_etcd fleet (UUID ''a1'') =
     ([\<lparr>Key = ''role'', Value = ''web''\<rparr>], Some (Failure ''invalid character''))"
  by (simp add: GetAllClassifiers_def toy_Join toy_Get toy_space fleet_def a1_classifiers_def
                toy_Unmarshal)

subsection \<open>Task submission\<close>

text \<open>
  C7. \<open>SubmitTask\<close> first reads the minion's root directory. When that read fails, it
  returns the read's error and the store is unchanged; when the task does not serialise, it
  returns that error and the store is unchanged. Only when both succeed does it make the
  ordered insert of the serialised task into the minion's \<open>queue\<close> directory, and what it
  returns is the outcome of that insert.
\<close>

theorem SubmitTask_checks_first:
  "(KAPI_Get api (filepath_Join api [EtcdMinionSpace api, uuid_String u]) None st = Inl err \<longrightarrow>
      SubmitTask api st u t = (Some err, st)) \<and>
   (KAPI_Get api (filepath_Join api [EtcdMinionSpace api, uuid_String u]) None st = Inr root \<and>
    json_Marshal api t = (data, Some err') \<longrightarrow>
      SubmitTask api st u t = (Some err', st)) \<and>
   (KAPI_Get api (filepath_Join api [EtcdMinionSpace api, uuid_String u]) None st = Inr root \<and>
    json_Marshal api t = (data, None) \<longrightarrow>
      SubmitTask api st u t =
        (case KAPI_CreateInOrder api
                (filepath_Join api [filepath_Join api [EtcdMinionSpace api, uuid_String u], ''queue''])
                data st of
           (Inl err, st') \<Rightarrow> (Some err, st') | (Inr created, st') \<Rightarrow> (None, st')))"
  by (auto simp: SubmitTask_def Let_def split: sum.splits prod.splits)

theorem SubmitTask_checks_first_witness:
  "KAPI_Get toy_etcd (filepath_Join toy_etcd [EtcdMinionSpace toy_etcd, uuid_String (UUID ''d4'')]) None fleet =
     Inl (EtcdError ErrorCodeKeyNotFound ''Key not found'') \<and>
   SubmitTask toy_etcd fleet (UUID ''d4'') ''run'' =
     (Some (EtcdError ErrorCodeKeyNotFound ''Key not found''), fleet) \<and>
   KAPI_Get toy_etcd (filepath_Join toy_etcd [EtcdMinionSpace toy_etcd, uuid_String (UUID ''a1'')]) None fleet =
     Inr (Node ''/gru/minion/a1'' [] []) \<and>
   json_Marshal toy_etcd [] = ([], Some (Failure ''unsupported value'')) \<and>
   SubmitTask toy_etcd fleet (UUID ''a1'') [] = (Some (Failure ''unsupported value''), fleet) \<and>
   json_Marshal toy_etcd ''run'' = (''run'', None) \<and>
   SubmitTask toy_etcd fleet (UUID ''a1'') ''run'' =
     (None, fleet @ [(''/gru/minion/a1/queue/'' @ replicate (Suc (length fleet)) (CHR ''0''),
                      Node (''/gru/minion/a1/queue/'' @ replicate (Suc (length fleet)) (CHR ''0''))
                        ''run'' [])])"
proof -
  have d: "KAPI_Get toy_etcd
             (filepath_Join toy_etcd [EtcdMinionSpace toy_etcd, uuid_String (UUID ''d4'')]) None fleet =
           Inl (EtcdError ErrorCodeKeyNotFound ''Key not found'')"
    by (simp add: toy_Join toy_Get toy_space fleet_def)
  have a: "KAPI_Get toy_etcd
             (filepath_Join toy_etcd [EtcdMinionSpace toy_etcd, uuid_String (UUID ''a1'')]) None fleet =
           Inr (Node ''/gru/minion/a1'' [] [])"
    by (simp add: toy_Join toy_Get toy_space fleet_def)
  have m0: "json_Marshal toy_etcd [] = ([], Some (Failure ''unsupported value''))"
    by (simp add: toy_etcd_def)
  have m1: "json_Marshal toy_etcd ''run'' = (''run'', None)"
    by (simp add: toy_etcd_def)
  have c: "KAPI_CreateInOrder toy_etcd dir v s =
             (Inr (Node (dir @ ''/'' @ replicate (Suc (length s)) (CHR ''0'')) v []),
              s @ [(dir @ ''/'' @ replicate (Suc (length s)) (CHR ''0''),
                    Node (dir @ ''/'' @ replicate (Suc (length s)) (CHR ''0'')) v [])])" for dir v s
    by (simp add: toy_etcd_def Let_def)
  from SubmitTask_checks_first
         [of toy_etcd "UUID ''d4''" fleet "EtcdError ErrorCodeKeyNotFound ''Key not found''" "''run''"] d
  have r1: "SubmitTask toy_etcd fleet (UUID ''d4'') ''run'' =
              (Some (EtcdError ErrorCodeKeyNotFound ''Key not found''), fleet)"
    by blast
  from SubmitTask_checks_first
         [of toy_etcd "UUID ''a1''" fleet _ "[]" "Node ''/gru/minion/a1'' [] []" "[]"
             "Failure ''unsupported value''"] a m0
  have r2: "SubmitTask toy_etcd fleet (UUID ''a1'') [] = (Some (Failure ''unsupported value''), fleet)"
    by blast
  from SubmitTask_checks_first
         [of toy_etcd "UUID ''a1''" fleet _ "''run''" "Node ''/gru/minion/a1'' [] []" "''run''"] a m1
  have r3: "SubmitTask toy_etcd fleet (UUID ''a1'') ''run'' =
        (case KAPI_CreateInOrder toy_etcd
                (filepath_Join toy_etcd
                   [filepath_Join toy_etcd [EtcdMinionSpace toy_etcd, uuid_String (UUID ''a1'')], ''queue''])
                ''run'' fleet of
           (Inl err, st') \<Rightarrow> (Some err, st') | (Inr created, st') \<Rightarrow> (None, st'))"
    by blast
  have r3': "SubmitTask toy_etcd fleet (UUID ''a1'') ''run'' =
     (None, fleet @ [(''/gru/minion/a1/queue/'' @ replicate (Suc (length fleet)) (CHR ''0''),
                      Node (''/gru/minion/a1/queue/'' @ replicate (Suc (length fleet)) (CHR ''0''))
                        ''run'' [])])"
    unfolding r3 c by (simp add: toy_Join toy_space)
  from d a m0 m1 r1 r2 r3' show ?thesis by blast
qed

section \<open>Properties of the classifier command\<close>

lemma show_classifiers_empty: "show_classifiers client minion [] = Quiet"
  by (simp add: show_classifiers_def)

text \<open>
  C8. For a valid minion UUID: when listing the classifier keys fails with the store's
  \<open>key not found\<close> error, the error is dropped and the command goes on with the keys that
  came with it, so with no keys it returns having printed nothing and without reporting an
  error; when the listing fails with any other error, the command shows that error and ends
  the process with exit code 1.
\<close>

theorem execClassifierCommand_listing_errors:
  assumes "cli_uuid_Parse client arg = Some minion"
  shows "(MinionClassifierKeys client minion = (keys, Some (EtcdError ErrorCodeKeyNotFound msg)) \<longrightarrow>
            execClassifierCommand client (arg # rest) = show_classifiers client minion keys \<and>
            (keys = [] \<longrightarrow> execClassifierCommand client (arg # rest) = Quiet)) \<and>
         (MinionClassifierKeys client minion = (keys, Some e) \<and>
          (\<forall>m. e \<noteq> EtcdError ErrorCodeKeyNotFound m) \<longrightarrow>
            execClassifierCommand client (arg # rest) = displayError e 1 \<and>
            displayError e 1 = Exit 1 e)"
proof (intro conjI impI)
  assume k: "MinionClassifierKeys client minion = (keys, Some (EtcdError ErrorCodeKeyNotFound msg))"
  with assms show "execClassifierCommand client (arg # rest) = show_classifiers client minion keys"
    by (simp add: execClassifierCommand_def)
  then show "execClassifierCommand client (arg # rest) = Quiet" if "keys = []"
    using that by (simp add: show_classifiers_empty)
next
  assume o: "MinionClassifierKeys client minion = (keys, Some e) \<and>
             (\<forall>m. e \<noteq> EtcdError ErrorCodeKeyNotFound m)"
  show "execClassifierCommand client (arg # rest) = displayError e 1"
  proof (cases e)
    case (EtcdError code m)
    with o have "code \<noteq> ErrorCodeKeyNotFound" by auto
    with assms o EtcdError show ?thesis
      by (simp add: execClassifierCommand_def)
  next
    case (Failure m)
    with assms o show ?thesis
      by (simp add: execClassifierCommand_def)
  qed
  show "displayError e 1 = Exit 1 e"
    by (simp add: displayError_def)
qed

theorem execClassifierCommand_listing_errors_witness:
  "cli_uuid_Parse toy_client ''a1'' = Some (UUID ''a1'') \<and>
   MinionClassifierKeys toy_client (UUID ''a1'') =
     ([], Some (EtcdError ErrorCodeKeyNotFound ''Key not found'')) \<and>
   execClassifierCommand toy_client [''a1''] = Quiet \<and>
   cli_uuid_Parse toy_client ''b2'' = Some (UUID ''b2'') \<and>
   MinionClassifierKeys toy_client (UUID ''b2'') = ([], Some (Failure ''connection refused'')) \<and>
   (\<forall>m. Failure ''connection refused'' \<noteq> EtcdError ErrorCodeKeyNotFound m) \<and>
   execClassifierCommand toy_client [''b2''] = Exit 1 (Failure ''connection refused'')"
proof -
  have pa: "cli_uuid_Parse toy_client ''a1'' = Some (UUID ''a1'')"
    by (simp add: toy_client_def toy_etcd_def)
  have pb: "cli_uuid_Parse toy_client ''b2'' = Some (UUID ''b2'')"
    by (simp add: toy_client_def toy_etcd_def)
  have ka: "MinionClassifierKeys toy_client (UUID ''a1'') =
              ([], Some (EtcdError ErrorCodeKeyNotFound ''Key not found''))"
    by (simp add: toy_client_def)
  have kb: "MinionClassifierKeys toy_client (UUID ''b2'') = ([], Some (Failure ''connection refused''))"
    by (simp add: toy_client_def)
  have n: "\<forall>m. Failure ''connection refused'' \<noteq> EtcdError ErrorCodeKeyNotFound m"
    by simp
  note ta = execClassifierCommand_listing_errors
              [OF pa, of "[]" "''Key not found''" "[]", THEN conjunct1, rule_format, OF ka]
  have ra: "execClassifierCommand toy_client [''a1''] = Quiet"
    by (rule ta [THEN conjunct2, rule_format, OF refl])
  note tb = execClassifierCommand_listing_errors
              [OF pb, of "[]" _ "[]" "Failure ''connection refused''", THEN conjunct2, rule_format,
               OF conjI [OF kb n]]
  have rb: "execClassifierCommand toy_client [''b2''] = Exit 1 (Failure ''connection refused'')"
    using tb by simp
  show ?thesis
    by (intro conjI) (fact pa pb ka kb n ra rb)+
qed

end
